theory Spec2Isabelle
  imports Complex_Main
begin

section \<open>Registry resolver: \<open>getAvailableBergamotLanguagePairs\<close>\<close>

text \<open>
  The language-pair registry is a JavaScript \<open>Map<string, string[]>\<close>; it is kept here as an
  association list in insertion order. Strings are byte strings (UTF-8).
\<close>

type_synonym registry = "(string \<times> string list) list"

definition has :: "(string \<times> 'v) list \<Rightarrow> string \<Rightarrow> bool" where
  "has m k = (map_of m k \<noteq> None)"

text \<open>\<open>pairs.get(source)?.includes(target) || false\<close>\<close>

definition includes_target :: "registry \<Rightarrow> string \<Rightarrow> string \<Rightarrow> bool" where
  "includes_target pairs source target =
     (case map_of pairs source of None \<Rightarrow> False | Some ts \<Rightarrow> target \<in> set ts)"

text \<open>
  What one \<open>fetch\<close> of the registry endpoint can produce. A value of \<open>data.models\<close> is
  an array of some length, or some other truthy or falsy value.
\<close>

datatype jval = JArr nat | JTruthy | JFalsy

datatype registry_json =
    NotAnObject
  | NoModels
  | Models "(string \<times> jval) list"

datatype fetch_result =
    AbortError
  | FetchError
  | Response bool "registry_json option"

datatype attempt_error = Aborted | Failed

text \<open>\<open>pairKey.split('-')\<close>\<close>

fun split_on :: "char \<Rightarrow> string \<Rightarrow> string list" where
  "split_on c [] = [[]]"
| "split_on c (x # xs) =
     (if x = c then [] # split_on c xs
      else (case split_on c xs of [] \<Rightarrow> [[x]] | w # ws \<Rightarrow> (x # w) # ws))"

text \<open>\<open>const [source, target] = pairKey.split('-')\<close> followed by \<open>source && target\<close>\<close>

definition parse_pair_key :: "string \<Rightarrow> (string \<times> string) option" where
  "parse_pair_key pairKey =
     (case split_on CHR ''-'' pairKey of
        s # t # _ \<Rightarrow> if s \<noteq> [] \<and> t \<noteq> [] then Some (s, t) else None
      | _ \<Rightarrow> None)"

text \<open>\<open>if (!pairs.has(source)) pairs.set(source, []); pairs.get(source)!.push(target)\<close>\<close>

definition add_pair :: "registry \<Rightarrow> string \<Rightarrow> string \<Rightarrow> registry" where
  "add_pair pairs source target =
     (let pairs' = (if has pairs source then pairs else pairs @ [(source, [])])
      in map (\<lambda>(k, v). if k = source then (k, v @ [target]) else (k, v)) pairs')"

fun parse_models :: "registry \<Rightarrow> (string \<times> jval) list \<Rightarrow> registry" where
  "parse_models pairs [] = pairs"
| "parse_models pairs ((pairKey, models) # rest) =
     (case (parse_pair_key pairKey, models) of
        (Some (source, target), JArr n) \<Rightarrow>
          if n > 0 then parse_models (add_pair pairs source target) rest
          else parse_models pairs rest
      | _ \<Rightarrow> parse_models pairs rest)"

text \<open>The body of the \<open>try\<close> block of one attempt: the registry, or the error thrown.\<close>

fun try_attempt :: "fetch_result \<Rightarrow> attempt_error + registry" where
  "try_attempt AbortError = Inl Aborted"
| "try_attempt FetchError = Inl Failed"
| "try_attempt (Response ok body) =
     (if \<not> ok then Inl Failed
      else case body of
        None \<Rightarrow> Inl Failed
      | Some NotAnObject \<Rightarrow> Inl Failed
      | Some NoModels \<Rightarrow> Inl Failed
      | Some (Models entries) \<Rightarrow>
          (let pairs = parse_models [] entries
           in if pairs = [] then Inl Failed else Inr pairs))"

text \<open>What the resolver does to the outside world, in order.\<close>

datatype net_event = Fetch nat | Sleep nat

text \<open>\<open>Math.min(1000 * Math.pow(2, attempt), 5000)\<close>\<close>

definition backoff_delay :: "nat \<Rightarrow> nat" where
  "backoff_delay attempt = min (1000 * 2 ^ attempt) 5000"

text \<open>
  The \<open>for (let attempt = 0; attempt < retries; attempt++)\<close> loop. The environment
  \<open>net\<close> gives the outcome of the fetch of each attempt.
\<close>

function registry_loop ::
  "(nat \<Rightarrow> fetch_result) \<Rightarrow> nat \<Rightarrow> nat \<Rightarrow> registry option \<times> net_event list" where
  "registry_loop net retries attempt =
     (if attempt < retries then
        (case try_attempt (net attempt) of
           Inr pairs \<Rightarrow> (Some pairs, [Fetch attempt])
         | Inl Aborted \<Rightarrow> (None, [Fetch attempt])
         | Inl Failed \<Rightarrow>
             if attempt < retries - 1 then
               (let (r, evs) = registry_loop net retries (attempt + 1)
                in (r, Fetch attempt # Sleep (backoff_delay attempt) # evs))
             else
               (let (r, evs) = registry_loop net retries (attempt + 1)
                in (r, Fetch attempt # evs)))
      else (None, []))"
  by pat_completeness auto
termination
  by (relation "measure (\<lambda>(net, retries, attempt). retries - attempt)") auto

declare registry_loop.simps [simp del]

text \<open>
  The module variable \<open>availableLanguagePairsCache\<close> is passed in and returned.
  \<open>window\<close> says whether \<open>typeof window !== 'undefined'\<close>.
\<close>

definition getAvailableBergamotLanguagePairs ::
  "bool \<Rightarrow> nat \<Rightarrow> (nat \<Rightarrow> fetch_result) \<Rightarrow> registry option
     \<Rightarrow> registry \<times> registry option \<times> net_event list" where
  "getAvailableBergamotLanguagePairs window retries net cache =
     (if \<not> window then ([], cache, [])
      else case cache of
        Some pairs \<Rightarrow> (pairs, cache, [])
      | None \<Rightarrow>
          (case registry_loop net retries 0 of
             (Some pairs, evs) \<Rightarrow> (pairs, Some pairs, evs)
           | (None, evs) \<Rightarrow> ([], None, evs)))"

definition default_retries :: nat where
  "default_retries = 3"

definition clearBergamotLanguagePairsCache :: "registry option \<Rightarrow> registry option" where
  "clearBergamotLanguagePairsCache cache = None"

section \<open>Path resolver: \<open>getTranslationPairInfo\<close>\<close>

record TranslationPairInfo =
  available :: bool
  isDirect :: bool
  isPivot :: bool
  pivotPath :: "string option"
  modelCount :: nat

definition pivotLang :: string where
  "pivotLang = ''en''"

text \<open>The separator \<open>" \<rightarrow> "\<close> of the template string, the arrow U+2192 in UTF-8.\<close>

definition arrow_sep :: string where
  "arrow_sep = [CHR '' '', CHR 0xE2, CHR 0x86, CHR 0x92, CHR '' '']"

definition unavailable :: TranslationPairInfo where
  "unavailable = \<lparr>available = False, isDirect = False, isPivot = False,
                  pivotPath = None, modelCount = 0\<rparr>"

definition getTranslationPairInfo :: "registry \<Rightarrow> string \<Rightarrow> string \<Rightarrow> TranslationPairInfo" where
  "getTranslationPairInfo pairs source target =
     (if source = target then unavailable
      else if includes_target pairs source target then
        \<lparr>available = True, isDirect = True, isPivot = False, pivotPath = None, modelCount = 1\<rparr>
      else if source = pivotLang \<or> target = pivotLang then unavailable
      else if includes_target pairs source pivotLang \<and> includes_target pairs pivotLang target then
        \<lparr>available = True, isDirect = False, isPivot = True,
         pivotPath = Some (source @ arrow_sep @ pivotLang @ arrow_sep @ target), modelCount = 2\<rparr>
      else unavailable)"

section \<open>RPC transport: the \<open>call\<close> function and the message listener of \<open>loadWorker\<close>\<close>

text \<open>\<open>Array.prototype.join\<close> on strings\<close>

fun join :: "string \<Rightarrow> string list \<Rightarrow> string" where
  "join sep [] = []"
| "join sep [x] = x"
| "join sep (x # y # ys) = x @ sep @ join sep (y # ys)"

record callsite =
  cs_message :: string
  cs_stack :: "string option"

text \<open>An error object sent by the worker: \<open>{message, stack}\<close>.\<close>

record remote_error =
  re_message :: string
  re_stack :: "string option"

text \<open>
  A message from the worker: \<open>{id, result, error}\<close>, with \<open>resp_error = None\<close> when
  \<open>error\<close> is \<open>undefined\<close>.
\<close>

record 'r response =
  resp_id :: nat
  resp_result :: 'r
  resp_error :: "remote_error option"

text \<open>
  The closure state of \<open>loadWorker\<close>: the counter \<open>serial\<close> and the table
  \<open>pending\<close>. The \<open>accept\<close> and \<open>reject\<close> functions stored in an entry settle the
  promise of that call; the promise is named by the call's id.
\<close>

record transport =
  serial :: nat
  pending :: "nat \<rightharpoonup> callsite"

datatype 'r settlement = Accept nat 'r | Reject nat remote_error

text \<open>
  \<open>call(name, ...args)\<close>. \<open>String\<close> is JavaScript's conversion of an argument to a
  string and \<open>stk\<close> the value of \<open>new Error().stack\<close>. The result is the new state
  and the message posted to the worker.
\<close>

definition call ::
  "('a \<Rightarrow> string) \<Rightarrow> string option \<Rightarrow> string \<Rightarrow> 'a list \<Rightarrow> transport
     \<Rightarrow> transport \<times> (nat \<times> string \<times> 'a list)" where
  "call String stk name args t =
     (let id' = serial t + 1;
          site = \<lparr>cs_message = name @ ''('' @ join '', '' (map String args) @ '')'',
                  cs_stack = stk\<rparr>
      in (t\<lparr>serial := id', pending := (pending t)(id' \<mapsto> site)\<rparr>, (id', name, args)))"

text \<open>\<open>x || fallback\<close> on an optional string: the fallback for \<open>undefined\<close> and for \<open>''\<close>.\<close>

definition or_else :: "string option \<Rightarrow> string \<Rightarrow> string" where
  "or_else x fallback = (case x of None \<Rightarrow> fallback | Some s \<Rightarrow> if s = [] then fallback else s)"

definition rejection :: "remote_error \<Rightarrow> callsite \<Rightarrow> remote_error" where
  "rejection err site =
     \<lparr>re_message = re_message err @ '' (response to ''
                     @ or_else (Some (cs_message site)) ''unknown'' @ '')'',
      re_stack = (if or_else (re_stack err) [] \<noteq> []
                  then Some (or_else (re_stack err) [] @ [CHR 0x0A] @ or_else (cs_stack site) [])
                  else cs_stack site)\<rparr>"

text \<open>
  The \<open>message\<close> listener. The second component is what happens to a promise:
  \<open>None\<close> when the message is only logged.
\<close>

definition on_message :: "'r response \<Rightarrow> transport \<Rightarrow> transport \<times> 'r settlement option" where
  "on_message ev t =
     (case pending t (resp_id ev) of
        None \<Rightarrow> (t, None)
      | Some site \<Rightarrow>
          (t\<lparr>pending := (pending t)(resp_id ev := None)\<rparr>,
           Some (case resp_error ev of
                   Some err \<Rightarrow> Reject (resp_id ev) (rejection err site)
                 | None \<Rightarrow> Accept (resp_id ev) (resp_result ev))))"

section \<open>Loader coordinator: shared state\<close>

text \<open>
  An \<open>AbortController\<close> and its signal are one object. Signals owned by callers and the
  controllers that \<open>getBergamotTranslator\<close> creates live in separate name spaces.
\<close>

datatype signal = CallerSignal nat | LoaderSignal nat

record js_error =
  e_name :: string
  e_message :: string

text \<open>\<open>new Error(msg)\<close>\<close>

definition Error :: "string \<Rightarrow> js_error" where
  "Error msg = \<lparr>e_name = ''Error'', e_message = msg\<rparr>"

text \<open>
  The result of an asynchronous function: it returned, it threw, or it is still waiting
  when the environment given to the model has been used up.
\<close>

datatype 'a outcome = Pending | Threw js_error | Returned 'a

text \<open>An entry of \<open>activeLoaders\<close>; a progress callback is named by a number.\<close>

record loader =
  abortController :: signal
  loader_onProgress :: "nat option"

text \<open>The mutable fields of a \<open>CustomBacking\<close>, the object behind a translator.\<close>

record backing =
  abortSignal :: signal
  backing_onProgress :: "nat option"
  filesDownloaded :: nat
  totalFilesEstimate :: nat
  backing_isPivot :: bool
  lastProgressUpdate :: int
  sourceLang :: string
  targetLang :: string

text \<open>
  Effects in the order they happen: a call of a progress callback with a value, a
  \<open>set\<close> or \<open>delete\<close> on \<open>bergamotTranslators\<close>, and the start and the settlement of
  the \<open>translate\<close> call that \<open>loadBergamotModel\<close> makes on a translator.
\<close>

datatype event =
    Progress nat int
  | CacheSet string nat
  | CacheDelete string
  | TranslateCall nat
  | TranslateSettled nat bool

text \<open>
  The module state. A translator is named by a number and \<open>backings\<close> is the store of
  the translators' backings. \<open>abort_listeners s\<close> are the controllers that an \<open>abort\<close>
  listener on \<open>s\<close> aborts, and \<open>clock\<close> is \<open>Date.now()\<close>.
\<close>

record world =
  bergamotTranslators :: "string \<rightharpoonup> nat"
  activeLoaders :: "string \<rightharpoonup> loader"
  backings :: "nat \<Rightarrow> backing"
  aborted :: "signal set"
  abort_listeners :: "signal \<Rightarrow> signal list"
  next_id :: nat
  clock :: int
  trace :: "event list"

definition modelKey :: "string \<Rightarrow> string \<Rightarrow> string" where
  "modelKey source target = source @ ''-'' @ target"

text \<open>\<open>abortSignal?.aborted\<close>\<close>

definition is_aborted :: "signal option \<Rightarrow> world \<Rightarrow> bool" where
  "is_aborted s w = (case s of None \<Rightarrow> False | Some sg \<Rightarrow> sg \<in> aborted w)"

text \<open>\<open>controller.abort()\<close>: sets the flag and runs the listeners, once.\<close>

definition abort_signal :: "signal \<Rightarrow> world \<Rightarrow> world" where
  "abort_signal s w =
     (if s \<in> aborted w then w
      else w\<lparr>aborted := insert s (aborted w) \<union> set (abort_listeners w s)\<rparr>)"

text \<open>\<open>if (onProgress) onProgress(v)\<close>\<close>

definition report :: "nat option \<Rightarrow> int \<Rightarrow> world \<Rightarrow> world" where
  "report cb v w = (case cb of None \<Rightarrow> w | Some c \<Rightarrow> w\<lparr>trace := trace w @ [Progress c v]\<rparr>)"

definition cache_set :: "string \<Rightarrow> nat \<Rightarrow> world \<Rightarrow> world" where
  "cache_set key h w =
     w\<lparr>bergamotTranslators := (bergamotTranslators w)(key \<mapsto> h),
       trace := trace w @ [CacheSet key h]\<rparr>"

definition cache_delete :: "string \<Rightarrow> world \<Rightarrow> world" where
  "cache_delete key w =
     w\<lparr>bergamotTranslators := (bergamotTranslators w)(key := None),
       trace := trace w @ [CacheDelete key]\<rparr>"

definition cancelBergamotModelLoad :: "string \<Rightarrow> string \<Rightarrow> world \<Rightarrow> world" where
  "cancelBergamotModelLoad source target w =
     (let key = modelKey source target
      in case activeLoaders w key of
           None \<Rightarrow> w
         | Some ld \<Rightarrow>
             (let w1 = abort_signal (abortController ld) w;
                  w2 = w1\<lparr>activeLoaders := (activeLoaders w1)(key := None)\<rparr>
              in cache_delete key w2))"

definition isBergamotModelLoaded :: "string \<Rightarrow> string \<Rightarrow> world \<Rightarrow> bool" where
  "isBergamotModelLoaded source target w =
     (bergamotTranslators w (modelKey source target) \<noteq> None)"

section \<open>Model fetcher: the methods of \<open>CustomBacking\<close>\<close>

text \<open>\<open>String.prototype.includes\<close>, \<open>endsWith\<close>\<close>

fun starts_with :: "string \<Rightarrow> string \<Rightarrow> bool" where
  "starts_with s [] = True"
| "starts_with [] (y # ys) = False"
| "starts_with (x # xs) (y # ys) = (x = y \<and> starts_with xs ys)"

fun str_includes :: "string \<Rightarrow> string \<Rightarrow> bool" where
  "str_includes [] sub = (sub = [])"
| "str_includes (x # xs) sub = (starts_with (x # xs) sub \<or> str_includes xs sub)"

definition ends_with :: "string \<Rightarrow> string \<Rightarrow> bool" where
  "ends_with s suffix = starts_with (rev s) (rev suffix)"

text \<open>
  JavaScript numbers are taken as rationals. \<open>Math.round\<close> is \<open>round\<close>: the nearest
  integer, a half rounded up. \<open>fmod\<close> is the remainder \<open>%\<close> on a non-negative number.
  The divisor \<open>totalFilesEstimate\<close> is 3 or 6 in every backing that the code creates.
  While a method of the backing runs, the clock stands still and no other task is
  scheduled; other tasks run between the calls of the engine.
\<close>

definition fmod :: "rat \<Rightarrow> rat \<Rightarrow> rat" where
  "fmod x y = x - y * of_int \<lfloor>x / y\<rfloor>"

definition updateProgress :: "rat \<Rightarrow> rat \<Rightarrow> rat \<Rightarrow> nat \<Rightarrow> world \<Rightarrow> world" where
  "updateProgress baseProgress fileProgress fileWeight h w =
     (let b = backings w h
      in case backing_onProgress b of
           None \<Rightarrow> w
         | Some cb \<Rightarrow>
             (let progress = baseProgress + fileProgress * fileWeight / 100;
                  clampedProgress = min 95 (max 0 (round progress));
                  now = clock w
              in if clampedProgress \<noteq> lastProgressUpdate b \<or> now - lastProgressUpdate b > 100
                 then (report (Some cb) clampedProgress w)
                        \<lparr>backings := (backings w)(h := b\<lparr>lastProgressUpdate := clampedProgress\<rparr>)\<rparr>
                 else w))"

text \<open>The condition under which \<open>checkAborted\<close> throws, and what it throws.\<close>

definition checkAborted :: "nat \<Rightarrow> world \<Rightarrow> bool" where
  "checkAborted h w = (abortSignal (backings w h) \<in> aborted w)"

definition aborted_by_user :: js_error where
  "aborted_by_user = Error ''Operation aborted by user''"

text \<open>
  What the fetch of the registry gives to \<open>loadModelRegistery\<close>: the fetch rejects,
  \<open>response.json()\<close> throws, the body is \<open>null\<close> (reading \<open>data.baseUrl\<close> throws), or
  it is a value whose \<open>models\<close> has the given entries. The list of file descriptors that
  the method builds from the entries goes to the engine; building it can throw (an
  entry without \<open>files.model\<close>), which the last argument says.
\<close>

datatype registry_response =
    RegRejected js_error
  | RegJsonError js_error
  | RegNull js_error
  | RegData "(string \<times> jval) list" "js_error option"

text \<open>Truthiness of \<open>data.models?.[key]\<close>\<close>

definition truthy :: "jval option \<Rightarrow> bool" where
  "truthy v = (case v of Some (JArr n) \<Rightarrow> True | Some JTruthy \<Rightarrow> True | _ \<Rightarrow> False)"

definition loadModelRegistery :: "registry_response \<Rightarrow> nat \<Rightarrow> world \<Rightarrow> js_error option \<times> world" where
  "loadModelRegistery resp h w =
     (if checkAborted h w then (Some aborted_by_user, w)
      else
        (let w1 = updateProgress 0 0 0 h w
         in case resp of
              RegRejected e \<Rightarrow> (Some e, w1)
            | RegJsonError e \<Rightarrow>
                if checkAborted h w1 then (Some aborted_by_user, w1) else (Some e, w1)
            | RegNull e \<Rightarrow>
                if checkAborted h w1 then (Some aborted_by_user, w1)
                else (Some e, updateProgress 5 100 0 h w1)
            | RegData entries build_error \<Rightarrow>
                if checkAborted h w1 then (Some aborted_by_user, w1)
                else
                  (let w2 = updateProgress 5 100 0 h w1;
                       b = backings w2 h;
                       pivot = (sourceLang b \<noteq> pivotLang \<and> targetLang b \<noteq> pivotLang
                                \<and> truthy (map_of entries (sourceLang b @ ''-'' @ pivotLang))
                                \<and> truthy (map_of entries (pivotLang @ ''-'' @ targetLang b)));
                       b' = b\<lparr>backing_isPivot := pivot,
                              totalFilesEstimate := (if pivot then 6 else 3),
                              filesDownloaded := 0\<rparr>
                   in (build_error, w2\<lparr>backings := (backings w2)(h := b')\<rparr>))))"

text \<open>
  The weight that \<open>fetch\<close> computes from the URL. The method writes it to the console
  and does nothing else with it.
\<close>

definition fileWeight :: "string \<Rightarrow> bool \<Rightarrow> rat" where
  "fileWeight url pivot =
     (if str_includes url ''/model.'' \<or> str_includes url ''model.'' then (if pivot then 35 / 100 else 70 / 100)
      else if str_includes url ''vocab'' \<or> str_includes url ''vocab.'' then (if pivot then 15 / 100 else 20 / 100)
      else if str_includes url ''lex'' \<or> str_includes url ''lexical'' then (if pivot then 5 / 100 else 10 / 100)
      else 25 / 100)"

definition progressRange :: rat where
  "progressRange = 85"

text \<open>
  The response to the request for a file. A body is served from a cache, or comes with
  a content length and is read in chunks of the given lengths, or has neither. In
  \<open>Ok body read_error gzip_magic decompress_ok\<close>, \<open>read_error\<close> is the error with which
  reading the body ends, if it does; \<open>gzip_magic\<close> says whether the bytes start with
  \<open>0x1f 0x8b\<close> and \<open>decompress_ok\<close> whether \<open>decompressGzip\<close> returns.
\<close>

datatype body = FromCache | Streamed nat "nat list" | Plain

datatype http_result =
    Rejected js_error
  | NotOk string string
  | Ok body "js_error option" bool bool

definition gzip_unsupported :: js_error where
  "gzip_unsupported = Error
     ''Gzip decompression not supported. Please use a modern browser (Chrome 80+, Firefox 113+, Safari 16.4+).''"

definition count_file :: "nat \<Rightarrow> world \<Rightarrow> world" where
  "count_file h w =
     w\<lparr>backings := (backings w)(h := (backings w h)\<lparr>filesDownloaded := filesDownloaded (backings w h) + 1\<rparr>)\<rparr>"

text \<open>\<open>this.checkAborted(); return ...\<close>\<close>

definition check_return :: "nat \<Rightarrow> world \<Rightarrow> js_error option \<times> world" where
  "check_return h w = (if checkAborted h w then (Some aborted_by_user, w) else (None, w))"

text \<open>\<open>this.filesDownloaded++; this.updateProgress(baseProgress, 100, fileAllocation); ...\<close>\<close>

definition finish_file :: "rat \<Rightarrow> rat \<Rightarrow> nat \<Rightarrow> world \<Rightarrow> js_error option \<times> world" where
  "finish_file baseProgress fileAllocation h w =
     check_return h (updateProgress baseProgress 100 fileAllocation h (count_file h w))"

text \<open>The \<open>while (true)\<close> loop over \<open>reader.read()\<close>.\<close>

fun read_chunks ::
  "rat \<Rightarrow> rat \<Rightarrow> nat \<Rightarrow> nat \<Rightarrow> nat \<Rightarrow> nat list \<Rightarrow> js_error option \<Rightarrow> world
     \<Rightarrow> js_error option \<times> world" where
  "read_chunks baseProgress fileAllocation h totalBytes downloadedBytes [] read_error w =
     (if checkAborted h w then (Some aborted_by_user, w) else (read_error, w))"
| "read_chunks baseProgress fileAllocation h totalBytes downloadedBytes (len # rest) read_error w =
     (if checkAborted h w then (Some aborted_by_user, w)
      else
        (let downloaded = downloadedBytes + len;
             fileProgress = min 90 (of_nat downloaded / of_nat totalBytes * 100);
             w' = (if backing_onProgress (backings w h) \<noteq> None
                      \<and> (fmod fileProgress 5 < 1 / 10 \<or> downloaded mod (50 * 1024) = 0)
                   then updateProgress baseProgress fileProgress fileAllocation h w
                   else w)
         in read_chunks baseProgress fileAllocation h totalBytes downloaded rest read_error w'))"

text \<open>The fallback branch: no content length.\<close>

definition plain_body ::
  "bool \<Rightarrow> js_error option \<Rightarrow> bool \<Rightarrow> rat \<Rightarrow> rat \<Rightarrow> nat \<Rightarrow> world \<Rightarrow> js_error option \<times> world" where
  "plain_body isGzipped read_error decompress_ok baseProgress fileAllocation h w =
     (let w1 = updateProgress baseProgress 30 fileAllocation h w
      in case read_error of
           Some e \<Rightarrow> (Some e, w1)
         | None \<Rightarrow>
             if isGzipped then
               (let w2 = updateProgress baseProgress 70 fileAllocation h w1
                in if decompress_ok then finish_file baseProgress fileAllocation h w2
                   else (Some gzip_unsupported, w2))
             else finish_file baseProgress fileAllocation h w1)"

text \<open>The inner \<open>try\<close> block of \<open>fetch\<close>: \<open>Some e\<close> when \<open>e\<close> is thrown in it.\<close>

definition fetch_try ::
  "string \<Rightarrow> http_result \<Rightarrow> rat \<Rightarrow> rat \<Rightarrow> nat \<Rightarrow> world \<Rightarrow> js_error option \<times> world" where
  "fetch_try url resp baseProgress fileAllocation h w =
     (case resp of
        Rejected e \<Rightarrow> (Some e, w)
      | NotOk status statusText \<Rightarrow>
          (Some (Error (''HTTP '' @ status @ '': '' @ statusText @ '' for '' @ url)), w)
      | Ok body read_error gzip_magic decompress_ok \<Rightarrow>
          (let isGzipped = (ends_with url ''.gz'' \<or> gzip_magic)
           in case body of
                FromCache \<Rightarrow>
                  (let w1 = updateProgress baseProgress 10 fileAllocation h w;
                       w2 = updateProgress baseProgress 50 fileAllocation h w1
                   in case read_error of
                        Some e \<Rightarrow> (Some e, w2)
                      | None \<Rightarrow>
                          if isGzipped then
                            (let w3 = updateProgress baseProgress 80 fileAllocation h w2
                             in if decompress_ok then finish_file baseProgress fileAllocation h w3
                                else (Some gzip_unsupported, w3))
                          else finish_file baseProgress fileAllocation h w2)
              | Streamed totalBytes chunks \<Rightarrow>
                  if totalBytes > 0 then
                    (let w1 = updateProgress baseProgress 5 fileAllocation h w
                     in case read_chunks baseProgress fileAllocation h totalBytes 0 chunks read_error w1 of
                          (Some e, w2) \<Rightarrow> (Some e, w2)
                        | (None, w2) \<Rightarrow>
                            if isGzipped then
                              (let w3 = updateProgress baseProgress 90 fileAllocation h w2
                               in if decompress_ok then
                                    check_return h
                                      (count_file h (updateProgress baseProgress 100 fileAllocation h w3))
                                  else (Some gzip_unsupported, w3))
                            else finish_file baseProgress fileAllocation h w2)
                  else plain_body isGzipped read_error decompress_ok baseProgress fileAllocation h w
              | Plain \<Rightarrow> plain_body isGzipped read_error decompress_ok baseProgress fileAllocation h w))"

text \<open>The \<open>catch (fetchError)\<close> block: the error that leaves \<open>fetch\<close>.\<close>

definition fetch_catch :: "string \<Rightarrow> js_error \<Rightarrow> nat \<Rightarrow> world \<Rightarrow> js_error" where
  "fetch_catch url fetchError h w =
     (if checkAborted h w then aborted_by_user
      else if e_name fetchError = ''AbortError'' \<or> abortSignal (backings w h) \<in> aborted w
        then Error ''Model download cancelled by user''
      else if str_includes (e_message fetchError) ''CORS''
              \<or> str_includes (e_message fetchError) ''Failed to fetch''
        then Error (''CORS or network error fetching '' @ url
                    @ ''. The file may not be accessible from this origin.'')
      else Error (''Could not fetch '' @ url @ '': ''
                  @ or_else (Some (e_message fetchError)) ''Unknown error''))"

definition fetch :: "string \<Rightarrow> http_result \<Rightarrow> nat \<Rightarrow> world \<Rightarrow> js_error option \<times> world" where
  "fetch url resp h w =
     (if checkAborted h w then (Some aborted_by_user, w)
      else
        (let b = backings w h;
             baseProgress = 5 + (of_nat (filesDownloaded b) / of_nat (totalFilesEstimate b)) * progressRange;
             fileAllocation = progressRange / of_nat (totalFilesEstimate b);
             w1 = updateProgress baseProgress 0 fileAllocation h w
         in case fetch_try url resp baseProgress fileAllocation h w1 of
              (None, w2) \<Rightarrow> (None, w2)
            | (Some e, w2) \<Rightarrow> (Some (fetch_catch url e h w2), w2)))"

section \<open>Loader coordinator: \<open>getBergamotTranslator\<close> and \<open>loadBergamotModel\<close>\<close>

text \<open>
  The translator is a \<open>LatencyOptimisedTranslator\<close> of the package
  \<open>@browsermt/bergamot-translator\<close>. Its \<open>translate\<close> is taken as a script: the calls
  it makes to the backing, in order, and what other tasks do to the module state while
  it is suspended. A call that throws ends the script and \<open>translate\<close> rejects with
  that error; when every call returns, \<open>translate\<close> settles as the environment says.
\<close>

datatype backing_call =
    LoadModelRegistery registry_response
  | FetchFile string http_result

datatype engine_step = Call backing_call | External "world \<Rightarrow> world"

fun run_call :: "backing_call \<Rightarrow> nat \<Rightarrow> world \<Rightarrow> js_error option \<times> world" where
  "run_call (LoadModelRegistery resp) h w = loadModelRegistery resp h w"
| "run_call (FetchFile url resp) h w = fetch url resp h w"

fun run_engine :: "engine_step list \<Rightarrow> nat \<Rightarrow> world \<Rightarrow> js_error option \<times> world" where
  "run_engine [] h w = (None, w)"
| "run_engine (External f # steps) h w = run_engine steps h (f w)"
| "run_engine (Call c # steps) h w =
     (case run_call c h w of
        (Some e, w') \<Rightarrow> (Some e, w')
      | (None, w') \<Rightarrow> run_engine steps h w')"

definition translate ::
  "engine_step list \<Rightarrow> js_error option \<Rightarrow> nat \<Rightarrow> world \<Rightarrow> js_error option \<times> world" where
  "translate steps result h w =
     (case run_engine steps h (w\<lparr>trace := trace w @ [TranslateCall h]\<rparr>) of
        (Some e, w') \<Rightarrow> (Some e, w'\<lparr>trace := trace w' @ [TranslateSettled h False]\<rparr>)
      | (None, w') \<Rightarrow> (result, w'\<lparr>trace := trace w' @ [TranslateSettled h (result = None)]\<rparr>))"

text \<open>
  The environment of one load. At each \<open>await\<close> other tasks may run: \<open>poll_ticks\<close> has
  what they do during each 100 ms sleep of the waiting loop, \<open>during_import\<close> during the
  dynamic import, \<open>during_sleep i\<close> during the \<open>i\<close>-th sleep after the trial translation.
\<close>

record load_env =
  poll_ticks :: "(world \<Rightarrow> world) list"
  during_import :: "world \<Rightarrow> world"
  import_error :: "js_error option"
  engine :: "engine_step list"
  engine_result :: "js_error option"
  during_sleep :: "nat \<Rightarrow> world \<Rightarrow> world"

text \<open>
  The loop \<open>while (activeLoaders.has(modelKey) && !abortSignal?.aborted)\<close>. The result
  is \<open>Returned (Some h)\<close> when the loop returns the cached translator, \<open>Returned None\<close>
  when the loop ends, and \<open>Pending\<close> when it is still waiting after the last tick.
\<close>

fun poll ::
  "(world \<Rightarrow> world) list \<Rightarrow> string \<Rightarrow> signal option \<Rightarrow> world \<Rightarrow> nat option outcome \<times> world" where
  "poll [] key abortSig w =
     (if activeLoaders w key \<noteq> None \<and> \<not> is_aborted abortSig w then (Pending, w)
      else (Returned None, w))"
| "poll (tick # ticks) key abortSig w =
     (if activeLoaders w key \<noteq> None \<and> \<not> is_aborted abortSig w then
        (let w' = tick w
         in case bergamotTranslators w' key of
              Some h \<Rightarrow> (Returned (Some h), w')
            | None \<Rightarrow> poll ticks key abortSig w')
      else (Returned None, w))"

text \<open>\<open>new CustomBacking({}, controller.signal, onProgress, sourceLang, targetLang)\<close>\<close>

definition new_backing :: "signal \<Rightarrow> nat option \<Rightarrow> string \<Rightarrow> string \<Rightarrow> backing" where
  "new_backing controller onProgress source target =
     \<lparr>abortSignal = controller, backing_onProgress = onProgress, filesDownloaded = 0,
      totalFilesEstimate = 3, backing_isPivot = False, lastProgressUpdate = 0,
      sourceLang = source, targetLang = target\<rparr>"

definition add_abort_listener :: "signal option \<Rightarrow> signal \<Rightarrow> world \<Rightarrow> world" where
  "add_abort_listener s controller w =
     (case s of
        None \<Rightarrow> w
      | Some sg \<Rightarrow> w\<lparr>abort_listeners := (abort_listeners w)(sg := abort_listeners w sg @ [controller])\<rparr>)"

definition remove_abort_listener :: "signal option \<Rightarrow> signal \<Rightarrow> world \<Rightarrow> world" where
  "remove_abort_listener s controller w =
     (case s of
        None \<Rightarrow> w
      | Some sg \<Rightarrow> w\<lparr>abort_listeners := (abort_listeners w)(sg := remove1 controller (abort_listeners w sg))\<rparr>)"

text \<open>
  \<open>getBergamotTranslator\<close> from \<open>const controller = new AbortController()\<close> on: the
  \<open>try\<close> block with its \<open>catch\<close> and \<open>finally\<close>.
\<close>

definition create_translator ::
  "load_env \<Rightarrow> string \<Rightarrow> string \<Rightarrow> signal option \<Rightarrow> nat option \<Rightarrow> world \<Rightarrow> nat outcome \<times> world" where
  "create_translator env source target abortSig onProgress w =
     (let key = modelKey source target;
          controller = LoaderSignal (next_id w);
          w1 = add_abort_listener abortSig controller (w\<lparr>next_id := next_id w + 1\<rparr>);
          w2 = w1\<lparr>activeLoaders := (activeLoaders w1)
                   (key \<mapsto> \<lparr>abortController = controller, loader_onProgress = onProgress\<rparr>)\<rparr>;
          w3 = during_import env w2;
          rw = (case import_error env of
                  Some e \<Rightarrow> (Threw e, cache_delete key w3)
                | None \<Rightarrow>
                    (let h = next_id w3;
                         w4 = w3\<lparr>next_id := h + 1,
                                 backings := (backings w3)
                                   (h := new_backing controller onProgress source target)\<rparr>
                     in (Returned h, report onProgress 5 (cache_set key h w4))));
          w5 = (snd rw)\<lparr>activeLoaders := (activeLoaders (snd rw))(key := None)\<rparr>
      in (fst rw, remove_abort_listener abortSig controller w5))"

definition operation_aborted :: js_error where
  "operation_aborted = Error ''Operation aborted''"

definition getBergamotTranslator ::
  "load_env \<Rightarrow> string \<Rightarrow> string \<Rightarrow> signal option \<Rightarrow> nat option \<Rightarrow> world \<Rightarrow> nat outcome \<times> world" where
  "getBergamotTranslator env source target abortSig onProgress w =
     (let key = modelKey source target
      in if is_aborted abortSig w then (Threw operation_aborted, w)
         else case bergamotTranslators w key of
           Some h \<Rightarrow> (Returned h, w)
         | None \<Rightarrow>
             if activeLoaders w key \<noteq> None then
               (case poll (poll_ticks env) key abortSig w of
                  (Returned (Some h), w1) \<Rightarrow> (Returned h, w1)
                | (Returned None, w1) \<Rightarrow>
                    if is_aborted abortSig w1 then (Threw operation_aborted, w1)
                    else create_translator env source target abortSig onProgress w1
                | (Threw e, w1) \<Rightarrow> (Threw e, w1)
                | (Pending, w1) \<Rightarrow> (Pending, w1))
             else create_translator env source target abortSig onProgress w)"

text \<open>The inner \<open>catch (e)\<close> of \<open>loadBergamotModel\<close>\<close>

definition wrap_load_error :: "string \<Rightarrow> string \<Rightarrow> js_error \<Rightarrow> js_error" where
  "wrap_load_error source target e =
     (if str_includes (e_message e) ''aborted'' then e
      else Error (''Bergamot model for '' @ source @ ''-'' @ target
                  @ '' is not available or failed to load: '' @ e_message e))"

text \<open>The progress calls and sleeps after the trial translation\<close>

definition finish_progress :: "load_env \<Rightarrow> nat option \<Rightarrow> world \<Rightarrow> world" where
  "finish_progress env onProgress w =
     (case onProgress of
        None \<Rightarrow> w
      | Some cb \<Rightarrow>
          (let w1 = report onProgress 90 (during_sleep env 0 w);
               w2 = report onProgress 95 (during_sleep env 1 w1)
           in report onProgress 100 (during_sleep env 2 w2)))"

text \<open>The outer \<open>try\<close> block of \<open>loadBergamotModel\<close>\<close>

definition load_try ::
  "load_env \<Rightarrow> string \<Rightarrow> string \<Rightarrow> signal option \<Rightarrow> nat option \<Rightarrow> world \<Rightarrow> nat outcome \<times> world" where
  "load_try env source target abortSig onProgress w =
     (case getBergamotTranslator env source target abortSig onProgress w of
        (Pending, w1) \<Rightarrow> (Pending, w1)
      | (Threw e, w1) \<Rightarrow> (Threw e, w1)
      | (Returned h, w1) \<Rightarrow>
          if is_aborted abortSig w1 then (Threw operation_aborted, w1)
          else
            (case translate (engine env) (engine_result env) h w1 of
               (Some e, w2) \<Rightarrow> (Threw (wrap_load_error source target e), w2)
             | (None, w2) \<Rightarrow> (Returned h, finish_progress env onProgress w2)))"

definition loadBergamotModel ::
  "load_env \<Rightarrow> string \<Rightarrow> string \<Rightarrow> signal option \<Rightarrow> nat option \<Rightarrow> world \<Rightarrow> nat outcome \<times> world" where
  "loadBergamotModel env source target abortSig onProgress w =
     (let key = modelKey source target
      in if is_aborted abortSig w then (Threw operation_aborted, w)
         else case bergamotTranslators w key of
           Some h \<Rightarrow> (Returned h, report onProgress 100 w)
         | None \<Rightarrow>
             (case load_try env source target abortSig onProgress w of
                (Threw e, w1) \<Rightarrow> (Threw e, cache_delete key w1)
              | (Returned h, w1) \<Rightarrow> (Returned h, w1)
              | (Pending, w1) \<Rightarrow> (Pending, w1)))"

text \<open>The module state when the page has loaded: empty tables, no signal aborted.\<close>

definition initial_world :: world where
  "initial_world =
     \<lparr>bergamotTranslators = Map.empty, activeLoaders = Map.empty,
      backings = (\<lambda>h. new_backing (LoaderSignal 0) None [] []),
      aborted = {}, abort_listeners = (\<lambda>s. []), next_id = 0,
      clock = 1700000000000, trace = []\<rparr>"

section \<open>Notions used to state the properties\<close>

text \<open>
  The attempts and sleeps of a registry resolution in which no attempt succeeds and
  none times out: attempt \<open>k\<close>, then, unless it was the last one, a sleep of
  \<open>min (1000 * 2 ^ k) 5000\<close> milliseconds.
\<close>

definition retry_schedule :: "nat \<Rightarrow> nat \<Rightarrow> net_event list" where
  "retry_schedule retries a =
     concat (map (\<lambda>k. if k < retries - 1 then [Fetch k, Sleep (min (1000 * 2 ^ k) 5000)]
                        else [Fetch k]) [a..<retries])"

text \<open>
  "A handle is inserted into the cache only after its trial translation has
  succeeded", read on a trace: every \<open>CacheSet\<close> of a handle comes after a
  \<open>TranslateSettled\<close> of that handle with \<open>True\<close>. The set holds the handles whose
  trial has succeeded so far.
\<close>

fun cache_after_trial :: "nat set \<Rightarrow> event list \<Rightarrow> bool" where
  "cache_after_trial probed [] = True"
| "cache_after_trial probed (CacheSet key h # evs) = (h \<in> probed \<and> cache_after_trial probed evs)"
| "cache_after_trial probed (TranslateSettled h ok # evs) =
     cache_after_trial (if ok then insert h probed else probed) evs"
| "cache_after_trial probed (Progress cb v # evs) = cache_after_trial probed evs"
| "cache_after_trial probed (CacheDelete key # evs) = cache_after_trial probed evs"
| "cache_after_trial probed (TranslateCall h # evs) = cache_after_trial probed evs"



text \<open>A load that no other task interferes with.\<close>

fun calls_only :: "engine_step list \<Rightarrow> bool" where
  "calls_only [] = True"
| "calls_only (Call c # steps) = calls_only steps"
| "calls_only (External f # steps) = False"

definition quiet :: "load_env \<Rightarrow> bool" where
  "quiet env = (during_import env = (\<lambda>w. w) \<and> (\<forall>i<3. during_sleep env i = (\<lambda>w. w))
                \<and> calls_only (engine env))"

text \<open>
  What a method of the backing may do to the module state: it leaves the tables, the
  abort flags and the signal of every backing as they are, and adds progress calls with
  values from 0 to 95 to the trace.
\<close>

definition backing_step :: "world \<Rightarrow> world \<Rightarrow> bool" where
  "backing_step w w' =
     (bergamotTranslators w' = bergamotTranslators w \<and> activeLoaders w' = activeLoaders w
      \<and> aborted w' = aborted w
      \<and> (\<forall>h. abortSignal (backings w' h) = abortSignal (backings w h))
      \<and> (\<exists>evs. trace w' = trace w @ evs
            \<and> (\<forall>e \<in> set evs. \<exists>cb v. e = Progress cb v \<and> 0 \<le> v \<and> v \<le> 95)))"

text \<open>
  Environments for the examples: the registry lists \<open>ja-en\<close>; the engine reads the
  registry and fetches the three gzip files of the model.
\<close>

definition simple_env :: "engine_step list \<Rightarrow> js_error option \<Rightarrow> load_env" where
  "simple_env steps result =
     \<lparr>poll_ticks = [], during_import = (\<lambda>w. w), import_error = None, engine = steps,
      engine_result = result, during_sleep = (\<lambda>i w. w)\<rparr>"

definition registry_ja_en :: registry_response where
  "registry_ja_en = RegData [(''ja-en'', JArr 1)] None"

definition gz_file :: http_result where
  "gz_file = Ok Plain None True True"

definition model_url :: string where
  "model_url = ''https://s/jaen/model.jaen.intgemm.alphas.bin.gz''"

definition vocab_url :: string where
  "vocab_url = ''https://s/jaen/vocab.jaen.spm.gz''"

definition lex_url :: string where
  "lex_url = ''https://s/jaen/lex.50.50.jaen.s2t.bin.gz''"

definition direct_script :: "engine_step list" where
  "direct_script =
     [Call (LoadModelRegistery registry_ja_en), Call (FetchFile model_url gz_file),
      Call (FetchFile vocab_url gz_file), Call (FetchFile lex_url gz_file)]"


text \<open>
  The same download, where after the model file has arrived the user cancels the pair
  and the caller's own signal is aborted.
\<close>

definition cancelled_script :: "engine_step list" where
  "cancelled_script =
     [Call (LoadModelRegistery registry_ja_en), Call (FetchFile model_url gz_file),
      External (cancelBergamotModelLoad ''ja'' ''en''),
      External (abort_signal (CallerSignal 0)),
      Call (FetchFile vocab_url gz_file), Call (FetchFile lex_url gz_file)]"

text \<open>
  The module state after a load of \<open>ja-en\<close> has returned, the state while the first
  load of \<open>ja-en\<close> waits for the dynamic import, and the states in which a new
  translator with progress callback 0 has read the registry, for \<open>ja-en\<close> and for
  \<open>ja-fr\<close>.
\<close>

definition loaded_world :: world where
  "loaded_world =
     snd (loadBergamotModel (simple_env direct_script None) ''ja'' ''en'' None None initial_world)"

definition importing_world :: world where
  "importing_world =
     initial_world\<lparr>activeLoaders :=
        [''ja-en'' \<mapsto> \<lparr>abortController = LoaderSignal 0, loader_onProgress = None\<rparr>],
        next_id := 1\<rparr>"

definition registry_read_world :: world where
  "registry_read_world =
     snd (loadModelRegistery registry_ja_en 1
       (snd (getBergamotTranslator (simple_env [] None) ''ja'' ''en'' None (Some 0) initial_world)))"





text \<open>A load during whose dynamic import the pair is cancelled.\<close>

definition cancelled_import_env :: load_env where
  "cancelled_import_env =
     (simple_env direct_script None)\<lparr>during_import := cancelBergamotModelLoad ''ja'' ''en''\<rparr>"

section \<open>Properties of the path resolver\<close>

lemma includes_target_iff:
  "includes_target pairs s t \<longleftrightarrow> (\<exists>ts. map_of pairs s = Some ts \<and> t \<in> set ts)"
  by (simp add: includes_target_def split: option.splits)

text \<open>
  Claim C2. For every registry and every two language codes, \<open>getTranslationPairInfo\<close>
  answers: unavailable with no model for equal codes; direct with one model when the
  registry lists the target under the source; otherwise, when neither code is \<open>en\<close> and
  the registry lists \<open>en\<close> under the source and the target under \<open>en\<close>, a pivot with two
  models and the path "source \<rightarrow> en \<rightarrow> target"; unavailable in every other case. With
  the registry \<open>{ja \<rightarrow> [en], en \<rightarrow> [fr]}\<close>: (ja, fr) is a pivot with path
  "ja \<rightarrow> en \<rightarrow> fr", (ja, en) is direct and (ja, ja) is unavailable.
\<close>

theorem getTranslationPairInfo_cases:
  "(source = target \<longrightarrow>
      \<not> available (getTranslationPairInfo pairs source target)
      \<and> modelCount (getTranslationPairInfo pairs source target) = 0)
   \<and> (source \<noteq> target \<and> includes_target pairs source target \<longrightarrow>
      getTranslationPairInfo pairs source target =
        \<lparr>available = True, isDirect = True, isPivot = False, pivotPath = None, modelCount = 1\<rparr>)
   \<and> (source \<noteq> target \<and> \<not> includes_target pairs source target
        \<and> source \<noteq> ''en'' \<and> target \<noteq> ''en''
        \<and> includes_target pairs source ''en'' \<and> includes_target pairs ''en'' target \<longrightarrow>
      getTranslationPairInfo pairs source target =
        \<lparr>available = True, isDirect = False, isPivot = True,
         pivotPath = Some (source @ arrow_sep @ ''en'' @ arrow_sep @ target), modelCount = 2\<rparr>)
   \<and> (source \<noteq> target \<and> \<not> includes_target pairs source target
        \<and> \<not> (source \<noteq> ''en'' \<and> target \<noteq> ''en''
               \<and> includes_target pairs source ''en'' \<and> includes_target pairs ''en'' target) \<longrightarrow>
      \<not> available (getTranslationPairInfo pairs source target)
      \<and> modelCount (getTranslationPairInfo pairs source target) = 0)
   \<and> (let reg = [(''ja'', [''en'']), (''en'', [''fr''])] in
        getTranslationPairInfo reg ''ja'' ''fr'' =
          \<lparr>available = True, isDirect = False, isPivot = True,
           pivotPath = Some (''ja'' @ arrow_sep @ ''en'' @ arrow_sep @ ''fr''), modelCount = 2\<rparr>
        \<and> getTranslationPairInfo reg ''ja'' ''en'' =
          \<lparr>available = True, isDirect = True, isPivot = False, pivotPath = None, modelCount = 1\<rparr>
        \<and> \<not> available (getTranslationPairInfo reg ''ja'' ''ja''))"
  by (simp add: getTranslationPairInfo_def unavailable_def pivotLang_def includes_target_def)

text \<open>The cases of claim C2 at the registry \<open>{ja \<rightarrow> [en], en \<rightarrow> [fr]}\<close>.\<close>

theorem getTranslationPairInfo_cases_witness:
  "getTranslationPairInfo [(''ja'', [''en'']), (''en'', [''fr''])] ''ja'' ''fr'' =
     \<lparr>available = True, isDirect = False, isPivot = True,
      pivotPath = Some (''ja'' @ arrow_sep @ ''en'' @ arrow_sep @ ''fr''), modelCount = 2\<rparr>
   \<and> getTranslationPairInfo [(''ja'', [''en'']), (''en'', [''fr''])] ''ja'' ''en'' =
     \<lparr>available = True, isDirect = True, isPivot = False, pivotPath = None, modelCount = 1\<rparr>
   \<and> \<not> available (getTranslationPairInfo [(''ja'', [''en'']), (''en'', [''fr''])] ''ja'' ''ja'')
   \<and> modelCount (getTranslationPairInfo [(''ja'', [''en'']), (''en'', [''fr''])] ''en'' ''ja'') = 0"
  using getTranslationPairInfo_cases [of "''ja''" "''fr''" "[(''ja'', [''en'']), (''en'', [''fr''])]"]
        getTranslationPairInfo_cases [of "''ja''" "''en''" "[(''ja'', [''en'']), (''en'', [''fr''])]"]
        getTranslationPairInfo_cases [of "''ja''" "''ja''" "[(''ja'', [''en'']), (''en'', [''fr''])]"]
        getTranslationPairInfo_cases [of "''en''" "''ja''" "[(''ja'', [''en'']), (''en'', [''fr''])]"]
  by (simp add: includes_target_def)

section \<open>Properties of the registry resolver\<close>

lemma try_attempt_nonempty: "try_attempt r = Inr p \<Longrightarrow> p \<noteq> []"
  by (cases r) (auto simp: Let_def split: if_splits option.splits registry_json.splits)

lemma registry_loop_Some:
  "registry_loop net retries a = (Some p, evs) \<Longrightarrow>
     \<exists>k. a \<le> k \<and> k < retries \<and> try_attempt (net k) = Inr p"
proof (induction net retries a arbitrary: evs rule: registry_loop.induct)
  case (1 net retries attempt)
  show ?case
  proof (cases "attempt < retries")
    case False
    with "1.prems" show ?thesis by (simp add: registry_loop.simps [of net retries attempt])
  next
    case True
    show ?thesis
    proof (cases "try_attempt (net attempt)")
      case (Inr pairs)
      with True "1.prems" show ?thesis
        by (auto simp: registry_loop.simps [of net retries attempt])
    next
      case (Inl e)
      show ?thesis
      proof (cases e)
        case Aborted
        with Inl True "1.prems" show ?thesis
          by (simp add: registry_loop.simps [of net retries attempt])
      next
        case Failed
        obtain r evs' where rec: "registry_loop net retries (attempt + 1) = (r, evs')"
          by (cases "registry_loop net retries (attempt + 1)")
        with Inl Failed True "1.prems" have r: "r = Some p"
          by (simp add: registry_loop.simps [of net retries attempt] split: if_splits)
        have "\<exists>k. attempt + 1 \<le> k \<and> k < retries \<and> try_attempt (net k) = Inr p"
        proof (cases "attempt < retries - 1")
          case True
          from "1.IH"(1) [OF \<open>attempt < retries\<close> Inl Failed True] rec r show ?thesis by simp
        next
          case False
          from "1.IH"(2) [OF \<open>attempt < retries\<close> Inl Failed False] rec r show ?thesis by simp
        qed
        then obtain k where "attempt + 1 \<le> k" "k < retries" "try_attempt (net k) = Inr p"
          by blast
        moreover from this have "attempt \<le> k" by simp
        ultimately show ?thesis by blast
      qed
    qed
  qed
qed

lemma registry_loop_all_failed:
  "(\<forall>k. a \<le> k \<and> k < retries \<longrightarrow> try_attempt (net k) = Inl Failed) \<Longrightarrow>
     registry_loop net retries a = (None, retry_schedule retries a)"
proof (induction "retries - a" arbitrary: a)
  case 0
  then show ?case
    by (simp add: registry_loop.simps [of net retries a] retry_schedule_def)
next
  case (Suc n)
  then have lt: "a < retries" and n: "n = retries - (a + 1)" by simp_all
  from Suc.hyps(1) [OF n] Suc.prems
  have rec: "registry_loop net retries (a + 1) = (None, retry_schedule retries (a + 1))" by simp
  from Suc.prems lt have f: "try_attempt (net a) = Inl Failed" by simp
  have sched: "retry_schedule retries a =
      (if a < retries - 1 then [Fetch a, Sleep (backoff_delay a)] else [Fetch a])
        @ retry_schedule retries (a + 1)"
    using lt by (simp add: retry_schedule_def upt_conv_Cons backoff_delay_def)
  show ?case
    using lt f rec sched by (simp add: registry_loop.simps [of net retries a])
qed

lemma registry_loop_abort:
  "a \<le> k \<Longrightarrow> k < retries \<Longrightarrow>
   (\<forall>j. a \<le> j \<and> j < k \<longrightarrow> try_attempt (net j) = Inl Failed) \<Longrightarrow>
   try_attempt (net k) = Inl Aborted \<Longrightarrow>
   registry_loop net retries a = (None, retry_schedule (Suc k) a)"
proof (induction "k - a" arbitrary: a)
  case 0
  then have "a = k" by simp
  with 0 show ?case
    by (simp add: registry_loop.simps [of net retries k] retry_schedule_def)
next
  case (Suc n)
  then have lt: "a < k" and n: "n = k - (a + 1)" by simp_all
  from Suc.hyps(1) [OF n] Suc.prems lt
  have rec: "registry_loop net retries (a + 1) = (None, retry_schedule (Suc k) (a + 1))" by simp
  from Suc.prems lt have f: "try_attempt (net a) = Inl Failed" by simp
  have sched: "retry_schedule (Suc k) a =
      [Fetch a, Sleep (backoff_delay a)] @ retry_schedule (Suc k) (a + 1)"
    using lt by (simp add: retry_schedule_def upt_conv_Cons backoff_delay_def)
  from lt \<open>k < retries\<close> have "a < retries" "a < retries - 1" by simp_all
  then show ?case
    using f rec sched by (simp add: registry_loop.simps [of net retries a])
qed

lemma registry_loop_3:
  "snd (registry_loop net 3 0) = [Fetch 0]
   \<or> snd (registry_loop net 3 0) = [Fetch 0, Sleep 1000, Fetch 1]
   \<or> snd (registry_loop net 3 0) = [Fetch 0, Sleep 1000, Fetch 1, Sleep 2000, Fetch 2]"
  by (simp add: registry_loop.simps [of net 3 0] registry_loop.simps [of net 3 "Suc 0"]
      registry_loop.simps [of net 3 "Suc (Suc 0)"]
      registry_loop.simps [of net 3 "Suc (Suc (Suc 0))"]
      registry_loop.simps [of net 3 2] registry_loop.simps [of net 3 3] backoff_delay_def
      split_beta
      split: sum.splits attempt_error.splits)

lemma registry_loop_no_success:
  assumes "\<forall>k<retries. \<forall>p. try_attempt (net k) \<noteq> Inr p"
  shows "fst (registry_loop net retries 0) = None"
proof (cases "registry_loop net retries 0")
  case (Pair r evs)
  show ?thesis
  proof (cases r)
    case None
    with Pair show ?thesis by simp
  next
    case (Some p)
    with Pair registry_loop_Some [of net retries 0 p evs] assms show ?thesis by auto
  qed
qed

lemma resolver_cache_cases:
  assumes "getAvailableBergamotLanguagePairs window retries net None = (pairs, cache', evs)"
  shows "(cache' = None \<and> pairs = []) \<or> (cache' = Some pairs \<and> pairs \<noteq> [])"
proof (cases window)
  case False
  with assms show ?thesis by (simp add: getAvailableBergamotLanguagePairs_def)
next
  case True
  obtain r tr where loop: "registry_loop net retries 0 = (r, tr)"
    by (cases "registry_loop net retries 0")
  show ?thesis
  proof (cases r)
    case None
    with True loop assms show ?thesis by (simp add: getAvailableBergamotLanguagePairs_def)
  next
    case (Some p)
    with loop registry_loop_Some [of net retries 0 p tr] have "p \<noteq> []"
      by (auto dest: try_attempt_nonempty)
    with Some True loop assms show ?thesis
      by (auto simp add: getAvailableBergamotLanguagePairs_def)
  qed
qed

text \<open>
  Claim C3. A registry resolution with an empty cache and the default of 3 retries
  makes at most 3 fetch attempts; its attempts and sleeps are attempt 0, or attempt 0,
  1 s, attempt 1, or attempt 0, 1 s, attempt 1, 2 s, attempt 2; an attempt that ends
  in the timeout abort is the last event of the resolution, which then returns the empty
  registry; and when no attempt succeeds the result is the empty registry (the function
  has no way to throw: its result is always a registry). For any number of retries, when
  every attempt fails without a timeout, the sleep after attempt \<open>k\<close> is
  \<open>min (1000 * 2 ^ k) 5000\<close> ms and there is none after the last attempt.
\<close>

theorem registry_resolution_retry:
  "(case getAvailableBergamotLanguagePairs True default_retries net None of
      (pairs, cache', evs) \<Rightarrow>
        length [k. Fetch k \<leftarrow> evs] \<le> 3
        \<and> (evs = [Fetch 0] \<or> evs = [Fetch 0, Sleep 1000, Fetch 1]
             \<or> evs = [Fetch 0, Sleep 1000, Fetch 1, Sleep 2000, Fetch 2])
        \<and> (\<forall>k<3. (\<forall>j<k. try_attempt (net j) = Inl Failed) \<and> try_attempt (net k) = Inl Aborted
              \<longrightarrow> evs = retry_schedule (Suc k) 0 \<and> pairs = [])
        \<and> ((\<forall>k<3. \<forall>p. try_attempt (net k) \<noteq> Inr p) \<longrightarrow> pairs = []))
   \<and> (\<forall>retries. (\<forall>k<retries. try_attempt (net k) = Inl Failed) \<longrightarrow>
         getAvailableBergamotLanguagePairs True retries net None
           = ([], None, retry_schedule retries 0))"
proof (intro conjI allI impI)
  fix retries
  assume "\<forall>k<retries. try_attempt (net k) = Inl Failed"
  then have "registry_loop net retries 0 = (None, retry_schedule retries 0)"
    by (intro registry_loop_all_failed) simp
  then show "getAvailableBergamotLanguagePairs True retries net None
               = ([], None, retry_schedule retries 0)"
    by (simp add: getAvailableBergamotLanguagePairs_def)
next
  obtain r evs where loop: "registry_loop net 3 0 = (r, evs)"
    by (cases "registry_loop net 3 0")
  have shape: "evs = [Fetch 0] \<or> evs = [Fetch 0, Sleep 1000, Fetch 1]
                \<or> evs = [Fetch 0, Sleep 1000, Fetch 1, Sleep 2000, Fetch 2]"
    using registry_loop_3 [of net] loop by simp
  then have count: "length [k. Fetch k \<leftarrow> evs] \<le> 3" by auto
  have abort: "evs = retry_schedule (Suc k) 0 \<and> r = None"
    if "k < 3" "\<forall>j<k. try_attempt (net j) = Inl Failed" "try_attempt (net k) = Inl Aborted" for k
    using registry_loop_abort [of 0 k 3 net] that loop by simp
  have none: "r = None" if "\<forall>k<3. \<forall>p. try_attempt (net k) \<noteq> Inr p"
    using registry_loop_no_success [of 3 net] that loop by simp
  show "case getAvailableBergamotLanguagePairs True default_retries net None of
      (pairs, cache', evs) \<Rightarrow>
        length [k. Fetch k \<leftarrow> evs] \<le> 3
        \<and> (evs = [Fetch 0] \<or> evs = [Fetch 0, Sleep 1000, Fetch 1]
             \<or> evs = [Fetch 0, Sleep 1000, Fetch 1, Sleep 2000, Fetch 2])
        \<and> (\<forall>k<3. (\<forall>j<k. try_attempt (net j) = Inl Failed) \<and> try_attempt (net k) = Inl Aborted
              \<longrightarrow> evs = retry_schedule (Suc k) 0 \<and> pairs = [])
        \<and> ((\<forall>k<3. \<forall>p. try_attempt (net k) \<noteq> Inr p) \<longrightarrow> pairs = [])"
  proof (cases r)
    case None
    with loop shape count abort show ?thesis
      by (simp add: getAvailableBergamotLanguagePairs_def default_retries_def)
  next
    case (Some p)
    with loop shape count abort none show ?thesis
      by (auto simp add: getAvailableBergamotLanguagePairs_def default_retries_def)
  qed
qed

text \<open>
  Claim C3 where every attempt fails, with 3 and with 5 retries (the fourth sleep is
  capped at 5 s), and where the second attempt times out.
\<close>

theorem registry_resolution_retry_witness:
  "getAvailableBergamotLanguagePairs True 3 (\<lambda>k. FetchError) None
     = ([], None, [Fetch 0, Sleep 1000, Fetch 1, Sleep 2000, Fetch 2])
   \<and> getAvailableBergamotLanguagePairs True 5 (\<lambda>k. FetchError) None
     = ([], None, [Fetch 0, Sleep 1000, Fetch 1, Sleep 2000, Fetch 2, Sleep 4000, Fetch 3,
                   Sleep 5000, Fetch 4])
   \<and> getAvailableBergamotLanguagePairs True default_retries
        (\<lambda>k. if k = 1 then AbortError else FetchError) None
     = ([], None, [Fetch 0, Sleep 1000, Fetch 1])"
proof -
  let ?fail = "\<lambda>k::nat. FetchError"
  let ?abort = "\<lambda>k::nat. if k = 1 then AbortError else FetchError"
  have sched: "retry_schedule 3 0 = [Fetch 0, Sleep 1000, Fetch 1, Sleep 2000, Fetch 2]"
    "retry_schedule 5 0 = [Fetch 0, Sleep 1000, Fetch 1, Sleep 2000, Fetch 2, Sleep 4000, Fetch 3,
                   Sleep 5000, Fetch 4]"
    "retry_schedule 2 0 = [Fetch 0, Sleep 1000, Fetch 1]"
    by (simp_all add: retry_schedule_def upt_rec)
  have a: "getAvailableBergamotLanguagePairs True 3 ?fail None = ([], None, retry_schedule 3 0)"
    and b: "getAvailableBergamotLanguagePairs True 5 ?fail None = ([], None, retry_schedule 5 0)"
    using registry_resolution_retry [of ?fail] by simp_all
  obtain pairs cache' evs where
    eq: "getAvailableBergamotLanguagePairs True default_retries ?abort None = (pairs, cache', evs)"
    by (cases "getAvailableBergamotLanguagePairs True default_retries ?abort None")
  have "\<forall>k<3. (\<forall>j<k. try_attempt (?abort j) = Inl Failed) \<and> try_attempt (?abort k) = Inl Aborted
          \<longrightarrow> evs = retry_schedule (Suc k) 0 \<and> pairs = []"
    using registry_resolution_retry [of ?abort] unfolding eq by blast
  from this [rule_format, of 1] have c: "evs = retry_schedule 2 0 \<and> pairs = []"
    by (simp add: numeral_2_eq_2)
  have d: "cache' = None"
    using resolver_cache_cases [OF eq] c by simp
  show ?thesis using a b c d eq by (simp add: sched)
qed

lemma registry_loop_first_fetch:
  "0 < retries \<Longrightarrow> \<exists>rest. snd (registry_loop net retries 0) = Fetch 0 # rest"
  by (simp add: registry_loop.simps [of net retries 0] split_beta
      split: sum.splits attempt_error.splits)

text \<open>
  Claim C10. A resolution that starts with an empty cache leaves the cache unset and
  returns the empty registry, or caches the registry it returns, which is then not
  empty and is the parse of a successful attempt. When no attempt succeeds, the result
  is empty, the cache stays unset, and any later call in the browser starts again with
  a fetch.
\<close>

theorem failed_resolution_not_cached:
  assumes "getAvailableBergamotLanguagePairs window retries net None = (pairs, cache', evs)"
  shows "((cache' = None \<and> pairs = [])
          \<or> (cache' = Some pairs \<and> pairs \<noteq> []
              \<and> (\<exists>k<retries. try_attempt (net k) = Inr pairs)))
       \<and> ((\<forall>k<retries. \<forall>p. try_attempt (net k) \<noteq> Inr p) \<longrightarrow>
            pairs = [] \<and> cache' = None
            \<and> (\<forall>retries' net'. 0 < retries' \<longrightarrow>
                  (\<exists>rest. snd (snd (getAvailableBergamotLanguagePairs True retries' net' cache'))
                            = Fetch 0 # rest)))"
proof -
  have succ: "\<exists>k<retries. try_attempt (net k) = Inr pairs" if "cache' = Some pairs"
  proof -
    from that assms have w: window
      by (auto simp: getAvailableBergamotLanguagePairs_def split: if_splits)
    obtain r tr where loop: "registry_loop net retries 0 = (r, tr)"
      by (cases "registry_loop net retries 0")
    with that assms w have "r = Some pairs"
      by (auto simp: getAvailableBergamotLanguagePairs_def split: option.splits)
    with loop registry_loop_Some [of net retries 0 pairs tr] show ?thesis by auto
  qed
  have cases: "(cache' = None \<and> pairs = []) \<or> (cache' = Some pairs \<and> pairs \<noteq> [])"
    by (rule resolver_cache_cases [OF assms])
  have fresh: "\<exists>rest. snd (snd (getAvailableBergamotLanguagePairs True retries' net' None))
                  = Fetch 0 # rest" if "0 < retries'" for retries' net'
    using registry_loop_first_fetch [OF that, of net']
    by (auto simp: getAvailableBergamotLanguagePairs_def split: prod.splits option.splits)
  show ?thesis
    using cases succ fresh by auto
qed

text \<open>Claim C10 where all three attempts fail.\<close>

theorem failed_resolution_not_cached_witness:
  "getAvailableBergamotLanguagePairs True 3 (\<lambda>k. FetchError) None
     = ([], None, [Fetch 0, Sleep 1000, Fetch 1, Sleep 2000, Fetch 2])
   \<and> (\<exists>rest. snd (snd (getAvailableBergamotLanguagePairs True 3 (\<lambda>k. FetchError) None))
               = Fetch 0 # rest)"
proof -
  have eq: "getAvailableBergamotLanguagePairs True 3 (\<lambda>k. FetchError) None
     = ([], None, [Fetch 0, Sleep 1000, Fetch 1, Sleep 2000, Fetch 2])"
    by code_simp
  have "\<forall>k<3::nat. \<forall>p. try_attempt ((\<lambda>k. FetchError) k) \<noteq> Inr p" by simp
  with failed_resolution_not_cached [OF eq] show ?thesis using eq by simp
qed

section \<open>Properties of the RPC transport\<close>

text \<open>
  Claim C9. A worker message whose id is not in the pending table leaves the transport
  as it is and settles no promise. An error response to a call made with \<open>call\<close>
  rejects that call's promise with a message that is the remote message followed by
  " (response to name(arg, ...))", so it contains the remote message and the
  description of the call; the same holds for any pending entry with a non-empty
  description.
\<close>

theorem rpc_unknown_id_and_error:
  "(pending t (resp_id ev) = None \<longrightarrow> on_message ev t = (t, None))
   \<and> (\<forall>err name args String stk t0.
         resp_error ev = Some err \<and> t = fst (call String stk name args t0)
         \<and> resp_id ev = serial t0 + 1 \<longrightarrow>
           (\<exists>rej. snd (on_message ev t) = Some (Reject (resp_id ev) rej)
              \<and> re_message rej = re_message err @ '' (response to ''
                   @ name @ ''('' @ join '', '' (map String args) @ '')'' @ '')''
              \<and> (\<exists>pre post. re_message rej = pre @ re_message err @ post)
              \<and> (\<exists>pre post. re_message rej
                    = pre @ (name @ ''('' @ join '', '' (map String args) @ '')'') @ post)))
   \<and> (\<forall>err site. resp_error ev = Some err \<and> pending t (resp_id ev) = Some site
         \<and> cs_message site \<noteq> [] \<longrightarrow>
           snd (on_message ev t) = Some (Reject (resp_id ev)
             (rejection err site))
           \<and> re_message (rejection err site)
               = re_message err @ '' (response to '' @ cs_message site @ '')'')"
proof (intro conjI allI impI)
  assume "pending t (resp_id ev) = None"
  then show "on_message ev t = (t, None)" by (simp add: on_message_def)
next
  fix err :: remote_error and name :: string and args :: "'b list" and String :: "'b \<Rightarrow> string"
    and stk t0
  let ?desc = "name @ ''('' @ join '', '' (map String args) @ '')''"
  assume a: "resp_error ev = Some err \<and> t = fst (call String stk name args t0)
         \<and> resp_id ev = serial t0 + 1"
  then have p: "pending t (resp_id ev) = Some \<lparr>cs_message = ?desc, cs_stack = stk\<rparr>"
    by (simp add: call_def Let_def)
  let ?rej = "rejection err \<lparr>cs_message = ?desc, cs_stack = stk\<rparr>"
  have m: "re_message ?rej = re_message err @ '' (response to '' @ ?desc @ '')''"
    by (simp add: rejection_def or_else_def)
  have s: "snd (on_message ev t) = Some (Reject (resp_id ev) ?rej)"
    using a p by (simp add: on_message_def)
  have c1: "\<exists>pre post. re_message ?rej = pre @ re_message err @ post"
    unfolding m by (rule exI [of _ "[]"], rule exI [of _ "'' (response to '' @ ?desc @ '')''"]) simp
  have c2: "\<exists>pre post. re_message ?rej = pre @ ?desc @ post"
    unfolding m
    by (rule exI [of _ "re_message err @ '' (response to ''"], rule exI [of _ "'')''"]) simp
  show "\<exists>rej. snd (on_message ev t) = Some (Reject (resp_id ev) rej)
              \<and> re_message rej = re_message err @ '' (response to ''
                   @ name @ ''('' @ join '', '' (map String args) @ '')'' @ '')''
              \<and> (\<exists>pre post. re_message rej = pre @ re_message err @ post)
              \<and> (\<exists>pre post. re_message rej
                    = pre @ (name @ ''('' @ join '', '' (map String args) @ '')'') @ post)"
    using s m c1 c2 by (intro exI [of _ ?rej]) simp
next
  fix err site
  assume "resp_error ev = Some err \<and> pending t (resp_id ev) = Some site \<and> cs_message site \<noteq> []"
  then show "snd (on_message ev t) = Some (Reject (resp_id ev) (rejection err site))"
    and "re_message (rejection err site)
               = re_message err @ '' (response to '' @ cs_message site @ '')''"
    by (simp_all add: on_message_def rejection_def or_else_def)
qed

text \<open>Claim C9 for a call \<open>initialize(a, b)\<close>: a response with id 7, and an error response.\<close>

theorem rpc_unknown_id_and_error_witness:
  "on_message \<lparr>resp_id = 7, resp_result = (), resp_error = None\<rparr>
       (fst (call (\<lambda>x. x) None ''initialize'' [''a'', ''b''] \<lparr>serial = 0, pending = Map.empty\<rparr>))
     = (fst (call (\<lambda>x. x) None ''initialize'' [''a'', ''b''] \<lparr>serial = 0, pending = Map.empty\<rparr>), None)
   \<and> (\<exists>rej. snd (on_message
         \<lparr>resp_id = 1, resp_result = (),
          resp_error = Some \<lparr>re_message = ''boom'', re_stack = None\<rparr>\<rparr>
         (fst (call (\<lambda>x. x) None ''initialize'' [''a'', ''b''] \<lparr>serial = 0, pending = Map.empty\<rparr>)))
        = Some (Reject 1 rej)
      \<and> re_message rej = ''boom (response to initialize(a, b))'')"
proof -
  let ?init = "\<lparr>serial = 0, pending = Map.empty\<rparr>"
  let ?t = "fst (call (\<lambda>x. x) None ''initialize'' [''a'', ''b''] ?init)"
  let ?e = "\<lparr>re_message = ''boom'', re_stack = None\<rparr>"
  have "pending ?t 7 = None" by (simp add: call_def Let_def)
  with rpc_unknown_id_and_error
    [of ?t "\<lparr>resp_id = 7, resp_result = (), resp_error = None\<rparr>"]
  have a: "on_message \<lparr>resp_id = 7, resp_result = (), resp_error = None\<rparr> ?t = (?t, None)"
    by simp
  let ?ev = "\<lparr>resp_id = 1, resp_result = (), resp_error = Some ?e\<rparr>"
  have h: "resp_error ?ev = Some ?e \<and> ?t = fst (call (\<lambda>x. x) None ''initialize'' [''a'', ''b''] ?init)
             \<and> resp_id ?ev = serial ?init + 1" by simp
  from rpc_unknown_id_and_error
      [of ?t ?ev, THEN conjunct2, THEN conjunct1, rule_format, OF h]
  obtain rej where r: "snd (on_message ?ev ?t) = Some (Reject (resp_id ?ev) rej)"
    "re_message rej = re_message ?e @ '' (response to ''
                   @ ''initialize'' @ ''('' @ join '', '' (map (\<lambda>x. x) [''a'', ''b'']) @ '')'' @ '')''"
    by blast
  from r(2) have "re_message rej = ''boom (response to initialize(a, b))''" by simp
  with r(1) have b: "\<exists>rej. snd (on_message ?ev ?t) = Some (Reject 1 rej)
      \<and> re_message rej = ''boom (response to initialize(a, b))''"
    by auto
  show ?thesis using a b by simp
qed

section \<open>What the methods of the backing leave unchanged\<close>

lemma backing_step_refl: "backing_step w w"
  by (simp add: backing_step_def)

lemma backing_step_trans:
  assumes "backing_step w1 w2" "backing_step w2 w3"
  shows "backing_step w1 w3"
proof -
  from assms(1) obtain e1 where e1: "trace w2 = trace w1 @ e1"
    "\<forall>e \<in> set e1. \<exists>cb v. e = Progress cb v \<and> 0 \<le> v \<and> v \<le> 95"
    by (auto simp: backing_step_def)
  from assms(2) obtain e2 where e2: "trace w3 = trace w2 @ e2"
    "\<forall>e \<in> set e2. \<exists>cb v. e = Progress cb v \<and> 0 \<le> v \<and> v \<le> 95"
    by (auto simp: backing_step_def)
  have "trace w3 = trace w1 @ (e1 @ e2)" using e1 e2 by simp
  moreover have "\<forall>e \<in> set (e1 @ e2). \<exists>cb v. e = Progress cb v \<and> 0 \<le> v \<and> v \<le> 95"
    using e1 e2 by auto
  ultimately have "\<exists>evs. trace w3 = trace w1 @ evs
      \<and> (\<forall>e \<in> set evs. \<exists>cb v. e = Progress cb v \<and> 0 \<le> v \<and> v \<le> 95)"
    by blast
  with assms show ?thesis by (simp add: backing_step_def)
qed

lemma updateProgress_step: "backing_step w (updateProgress bp fp fw h w)"
proof (cases "backing_onProgress (backings w h)")
  case None
  then show ?thesis by (simp add: updateProgress_def backing_step_refl)
next
  case (Some cb)
  let ?v = "min 95 (max 0 (round (bp + fp * fw / 100)))"
  have v: "0 \<le> ?v \<and> ?v \<le> 95" by simp
  show ?thesis
  proof (cases "?v \<noteq> lastProgressUpdate (backings w h)
                 \<or> clock w - lastProgressUpdate (backings w h) > 100")
    case False
    with Some show ?thesis by (simp add: updateProgress_def Let_def backing_step_refl)
  next
    case True
    with Some have t: "trace (updateProgress bp fp fw h w) = trace w @ [Progress cb ?v]"
      by (simp add: updateProgress_def Let_def report_def)
    have "\<exists>evs. trace (updateProgress bp fp fw h w) = trace w @ evs
      \<and> (\<forall>e \<in> set evs. \<exists>cb v. e = Progress cb v \<and> 0 \<le> v \<and> v \<le> 95)"
      unfolding t using v by (intro exI [of _ "[Progress cb ?v]"]) simp
    moreover from Some True have "bergamotTranslators (updateProgress bp fp fw h w) = bergamotTranslators w"
      "activeLoaders (updateProgress bp fp fw h w) = activeLoaders w"
      "aborted (updateProgress bp fp fw h w) = aborted w"
      "\<forall>h'. abortSignal (backings (updateProgress bp fp fw h w) h') = abortSignal (backings w h')"
      by (simp_all add: updateProgress_def Let_def report_def)
    ultimately show ?thesis by (simp add: backing_step_def)
  qed
qed

lemma count_file_step: "backing_step w (count_file h w)"
  by (simp add: backing_step_def count_file_def)

lemma check_return_step: "backing_step w (snd (check_return h w))"
  by (simp add: check_return_def backing_step_refl)

lemma finish_file_step: "backing_step w (snd (finish_file bp fa h w))"
  unfolding finish_file_def
  by (rule backing_step_trans [OF count_file_step
        backing_step_trans [OF updateProgress_step check_return_step]])

lemma read_chunks_step: "backing_step w (snd (read_chunks bp fa h tot d chunks re w))"
proof (induction chunks arbitrary: d w)
  case Nil
  show ?case by (simp add: backing_step_refl)
next
  case (Cons len rest)
  show ?case
  proof (cases "checkAborted h w")
    case True
    then show ?thesis by (simp add: backing_step_refl)
  next
    case False
    let ?fp = "min 90 (of_nat (d + len) / of_nat tot * 100) :: rat"
    let ?w' = "if backing_onProgress (backings w h) \<noteq> None
                      \<and> (fmod ?fp 5 < 1 / 10 \<or> (d + len) mod (50 * 1024) = 0)
                   then updateProgress bp ?fp fa h w else w"
    have 1: "backing_step w ?w'" by (simp add: updateProgress_step backing_step_refl)
    have 2: "backing_step ?w' (snd (read_chunks bp fa h tot (d + len) rest re ?w'))"
      by (rule Cons.IH)
    have "snd (read_chunks bp fa h tot d (len # rest) re w)
            = snd (read_chunks bp fa h tot (d + len) rest re ?w')"
      using False by (simp add: Let_def)
    with backing_step_trans [OF 1 2] show ?thesis by simp
  qed
qed

lemma plain_body_step: "backing_step w (snd (plain_body gz re dok bp fa h w))"
proof -
  let ?w1 = "updateProgress bp 30 fa h w"
  let ?w2 = "updateProgress bp 70 fa h ?w1"
  have 1: "backing_step w ?w1" by (rule updateProgress_step)
  have 2: "backing_step w ?w2" by (rule backing_step_trans [OF 1 updateProgress_step])
  have 3: "backing_step w (snd (finish_file bp fa h ?w1))"
    by (rule backing_step_trans [OF 1 finish_file_step])
  have 4: "backing_step w (snd (finish_file bp fa h ?w2))"
    by (rule backing_step_trans [OF 2 finish_file_step])
  show ?thesis using 1 2 3 4
    by (simp add: plain_body_def Let_def split: option.splits)
qed


lemma step_updateProgress: "backing_step w a \<Longrightarrow> backing_step w (updateProgress bp fp fw h a)"
  by (rule backing_step_trans [OF _ updateProgress_step])

lemma step_count_file: "backing_step w a \<Longrightarrow> backing_step w (count_file h a)"
  by (rule backing_step_trans [OF _ count_file_step])

lemma step_check_return: "backing_step w a \<Longrightarrow> backing_step w (snd (check_return h a))"
  by (rule backing_step_trans [OF _ check_return_step])

lemma step_finish_file: "backing_step w a \<Longrightarrow> backing_step w (snd (finish_file bp fa h a))"
  by (rule backing_step_trans [OF _ finish_file_step])

lemma step_plain_body: "backing_step w a \<Longrightarrow> backing_step w (snd (plain_body gz re dok bp fa h a))"
  by (rule backing_step_trans [OF _ plain_body_step])

lemma step_read_chunks:
  "backing_step w a \<Longrightarrow> backing_step w (snd (read_chunks bp fa h tot d chunks re a))"
  by (rule backing_step_trans [OF _ read_chunks_step])

lemmas step_rules = backing_step_refl step_updateProgress step_count_file step_check_return
  step_finish_file step_plain_body step_read_chunks

lemma fetch_try_step: "backing_step w (snd (fetch_try url resp bp fa h w))"
proof (cases resp)
  case (Rejected e)
  then show ?thesis by (simp add: fetch_try_def backing_step_refl)
next
  case (NotOk status statusText)
  then show ?thesis by (simp add: fetch_try_def backing_step_refl)
next
  case (Ok body re gm dok)
  show ?thesis
  proof (cases body)
    case FromCache
    with Ok show ?thesis
      by (simp add: fetch_try_def Let_def step_rules split: option.splits)
  next
    case Plain
    with Ok show ?thesis
      by (simp add: fetch_try_def Let_def step_rules)
  next
    case (Streamed tot chunks)
    let ?w1 = "updateProgress bp 5 fa h w"
    obtain r w2 where rc: "read_chunks bp fa h tot 0 chunks re ?w1 = (r, w2)"
      by (cases "read_chunks bp fa h tot 0 chunks re ?w1")
    have w2: "backing_step w w2"
      using step_read_chunks [OF step_updateProgress [OF backing_step_refl],
          of w bp fa h tot 0 chunks re bp 5 fa h] rc by simp
    show ?thesis
      using Ok Streamed rc w2
      by (simp add: fetch_try_def Let_def step_rules split: option.splits)
  qed
qed

lemma fetch_step: "backing_step w (snd (fetch url resp h w))"
proof (cases "checkAborted h w")
  case True
  then show ?thesis by (simp add: fetch_def backing_step_refl)
next
  case False
  let ?b = "backings w h"
  let ?bp = "5 + (of_nat (filesDownloaded ?b) / of_nat (totalFilesEstimate ?b)) * progressRange"
  let ?fa = "progressRange / of_nat (totalFilesEstimate ?b)"
  let ?w1 = "updateProgress ?bp 0 ?fa h w"
  have "backing_step w (snd (fetch_try url resp ?bp ?fa h ?w1))"
    by (rule backing_step_trans [OF updateProgress_step fetch_try_step])
  moreover have "snd (fetch url resp h w) = snd (fetch_try url resp ?bp ?fa h ?w1)"
    using False unfolding fetch_def Let_def
    by (cases "fetch_try url resp ?bp ?fa h ?w1") (simp split: option.splits)
  ultimately show ?thesis by simp
qed

lemma registry_update_step:
  "backing_step w a \<Longrightarrow>
   backing_step w (a\<lparr>backings := (backings a)
      (h := (backings a h)\<lparr>backing_isPivot := p, totalFilesEstimate := n, filesDownloaded := k\<rparr>)\<rparr>)"
  by (simp add: backing_step_def)

lemma loadModelRegistery_step: "backing_step w (snd (loadModelRegistery resp h w))"
  by (cases resp)
     (simp_all add: loadModelRegistery_def Let_def step_rules registry_update_step)

lemma run_call_step: "backing_step w (snd (run_call c h w))"
  by (cases c) (simp_all add: fetch_step loadModelRegistery_step)

lemma run_engine_step: "calls_only steps \<Longrightarrow> backing_step w (snd (run_engine steps h w))"
proof (induction steps arbitrary: w)
  case Nil
  show ?case by (simp add: backing_step_refl)
next
  case (Cons s steps)
  then obtain c where s: "s = Call c" and rest: "calls_only steps"
    by (cases s) simp_all
  obtain r w' where rc: "run_call c h w = (r, w')" by (cases "run_call c h w")
  have 1: "backing_step w w'" using run_call_step [of w c h] rc by simp
  show ?case
  proof (cases r)
    case (Some e)
    with s rc 1 show ?thesis by simp
  next
    case None
    with s rc backing_step_trans [OF 1 Cons.IH [OF rest, of w']] show ?thesis by simp
  qed
qed


lemma translate_quiet:
  assumes "calls_only steps" "translate steps result h w = (r, w')"
  shows "bergamotTranslators w' = bergamotTranslators w"
    and "\<exists>evs. trace w' = trace w @ [TranslateCall h] @ evs @ [TranslateSettled h (r = None)]
           \<and> (\<forall>e \<in> set evs. \<exists>cb v. e = Progress cb v \<and> 0 \<le> v \<and> v \<le> 95)"
proof -
  let ?w0 = "w\<lparr>trace := trace w @ [TranslateCall h]\<rparr>"
  obtain r1 w1 where run: "run_engine steps h ?w0 = (r1, w1)"
    by (cases "run_engine steps h ?w0")
  have step: "backing_step ?w0 w1"
    using run_engine_step [OF assms(1), of ?w0 h] run by simp
  then obtain evs where evs: "trace w1 = trace ?w0 @ evs"
    "\<forall>e \<in> set evs. \<exists>cb v. e = Progress cb v \<and> 0 \<le> v \<and> v \<le> 95"
    by (auto simp: backing_step_def)
  have w': "w' = w1\<lparr>trace := trace w1 @ [TranslateSettled h (r = None)]\<rparr>"
    using assms(2) run by (cases r1) (auto simp: translate_def)
  from step w' show "bergamotTranslators w' = bergamotTranslators w"
    by (simp add: backing_step_def)
  from w' evs show "\<exists>evs. trace w' = trace w @ [TranslateCall h] @ evs @ [TranslateSettled h (r = None)]
           \<and> (\<forall>e \<in> set evs. \<exists>cb v. e = Progress cb v \<and> 0 \<le> v \<and> v \<le> 95)"
    by (intro exI [of _ evs]) simp
qed

lemma poll_returns_cached:
  "poll ticks key abortSig w = (Returned (Some h), w1) \<Longrightarrow> bergamotTranslators w1 key = Some h"
  by (induction ticks arbitrary: w) (auto simp: Let_def split: if_splits option.splits)

lemma poll_never_throws: "fst (poll ticks key abortSig w) \<noteq> Threw e"
  by (induction ticks arbitrary: w) (auto simp: Let_def split: if_splits option.splits)

lemma create_translator_returns_cached:
  "create_translator env source target abortSig onProgress w = (Returned h, w1) \<Longrightarrow>
     bergamotTranslators w1 (modelKey source target) = Some h"
  by (auto simp: create_translator_def Let_def remove_abort_listener_def report_def cache_set_def
      split: option.splits)

lemma getBergamotTranslator_returns_cached:
  assumes "getBergamotTranslator env source target abortSig onProgress w = (Returned h, w1)"
  shows "bergamotTranslators w1 (modelKey source target) = Some h"
proof (cases "bergamotTranslators w (modelKey source target)")
  case (Some h')
  with assms show ?thesis
    by (auto simp: getBergamotTranslator_def Let_def split: if_splits)
next
  case None
  note nocache = None
  from assms have na: "\<not> is_aborted abortSig w"
    by (auto simp: getBergamotTranslator_def Let_def split: if_splits)
  show ?thesis
  proof (cases "activeLoaders w (modelKey source target)")
    case None
    with nocache na assms show ?thesis
      by (simp add: getBergamotTranslator_def Let_def create_translator_returns_cached)
  next
    case (Some ld)
    obtain r w2 where p: "poll (poll_ticks env) (modelKey source target) abortSig w = (r, w2)"
      by (cases "poll (poll_ticks env) (modelKey source target) abortSig w")
    show ?thesis
    proof (cases r)
      case Pending
      with Some nocache na assms p show ?thesis
        by (simp add: getBergamotTranslator_def Let_def)
    next
      case (Threw e)
      with Some nocache na assms p show ?thesis
        by (simp add: getBergamotTranslator_def Let_def)
    next
      case (Returned x)
      show ?thesis
      proof (cases x)
        case None
        with Returned Some nocache na assms p show ?thesis
          by (simp add: getBergamotTranslator_def Let_def create_translator_returns_cached
              split: if_splits)
      next
        case (Some h')
        with Returned p poll_returns_cached [of "poll_ticks env" "modelKey source target" abortSig w h' w2]
        have "bergamotTranslators w2 (modelKey source target) = Some h'" by simp
        with Some Returned \<open>activeLoaders w (modelKey source target) = Some ld\<close> nocache na assms p
        show ?thesis
          by (simp add: getBergamotTranslator_def Let_def)
      qed
    qed
  qed
qed

lemma create_translator_quiet:
  assumes "during_import env = (\<lambda>w. w)"
    and "create_translator env source target abortSig onProgress w = (r, w1)"
  shows "r \<noteq> Pending"
    and "r = Threw e \<Longrightarrow> bergamotTranslators w1 (modelKey source target) = None"
    and "r = Returned h \<Longrightarrow>
           trace w1 = trace w @ CacheSet (modelKey source target) h
              # (case onProgress of None \<Rightarrow> [] | Some cb \<Rightarrow> [Progress cb 5])"
    and "r = Threw e \<Longrightarrow> trace w1 = trace w @ [CacheDelete (modelKey source target)]"
  using assms
  by (auto simp: create_translator_def Let_def remove_abort_listener_def add_abort_listener_def
        report_def cache_set_def cache_delete_def
      split: option.splits)


lemma finish_progress_quiet:
  "\<forall>i<3. during_sleep env i = (\<lambda>w. w) \<Longrightarrow>
   finish_progress env onProgress w =
     (case onProgress of None \<Rightarrow> w
      | Some cb \<Rightarrow> w\<lparr>trace := trace w @ [Progress cb 90, Progress cb 95, Progress cb 100]\<rparr>)"
  by (simp add: finish_progress_def report_def Let_def split: option.splits)

lemma load_fresh_quiet:
  assumes fresh: "bergamotTranslators w (modelKey source target) = None"
      "activeLoaders w (modelKey source target) = None"
    and quiet: "quiet env"
    and load: "loadBergamotModel env source target abortSig onProgress w = (r, w')"
  shows "r \<noteq> Pending"
    and "r = Threw e \<Longrightarrow> bergamotTranslators w' (modelKey source target) = None"
    and "r = Returned h \<Longrightarrow>
          bergamotTranslators w' (modelKey source target) = Some h
          \<and> (\<exists>evs. trace w' = trace w
                @ CacheSet (modelKey source target) h
                  # (case onProgress of None \<Rightarrow> [] | Some cb \<Rightarrow> [Progress cb 5])
                @ [TranslateCall h] @ evs @ [TranslateSettled h True]
                @ (case onProgress of None \<Rightarrow> []
                   | Some cb \<Rightarrow> [Progress cb 90, Progress cb 95, Progress cb 100])
              \<and> (\<forall>e \<in> set evs. \<exists>cb v. e = Progress cb v \<and> 0 \<le> v \<and> v \<le> 95))"
proof -
  let ?key = "modelKey source target"
  from quiet have qi: "during_import env = (\<lambda>w. w)"
    and qs: "\<forall>i<3. during_sleep env i = (\<lambda>w. w)" and qe: "calls_only (engine env)"
    by (simp_all add: quiet_def)
  have goal: "r \<noteq> Pending
    \<and> (r = Threw e \<longrightarrow> bergamotTranslators w' ?key = None)
    \<and> (r = Returned h \<longrightarrow>
          bergamotTranslators w' ?key = Some h
          \<and> (\<exists>evs. trace w' = trace w
                @ CacheSet ?key h
                  # (case onProgress of None \<Rightarrow> [] | Some cb \<Rightarrow> [Progress cb 5])
                @ [TranslateCall h] @ evs @ [TranslateSettled h True]
                @ (case onProgress of None \<Rightarrow> []
                   | Some cb \<Rightarrow> [Progress cb 90, Progress cb 95, Progress cb 100])
              \<and> (\<forall>e \<in> set evs. \<exists>cb v. e = Progress cb v \<and> 0 \<le> v \<and> v \<le> 95)))"
  proof (cases "is_aborted abortSig w")
    case True
    with load fresh show ?thesis by (auto simp: loadBergamotModel_def Let_def)
  next
    case False
    obtain r1 w1 where cr: "create_translator env source target abortSig onProgress w = (r1, w1)"
      by (cases "create_translator env source target abortSig onProgress w")
    have gbt: "getBergamotTranslator env source target abortSig onProgress w = (r1, w1)"
      using False fresh cr by (simp add: getBergamotTranslator_def Let_def)
    note c = create_translator_quiet [OF qi cr]
    show ?thesis
    proof (cases r1)
      case Pending
      with c(1) show ?thesis by simp
    next
      case (Threw e1)
      with c(2) [of e1] have "bergamotTranslators w1 ?key = None" by simp
      with Threw load False fresh gbt show ?thesis
        by (auto simp: loadBergamotModel_def load_try_def Let_def cache_delete_def)
    next
      case (Returned h1)
      note r1 = Returned
      from create_translator_returns_cached [of env source target abortSig onProgress w h1 w1] cr r1
      have cached: "bergamotTranslators w1 ?key = Some h1" by simp
      from c(3) [of h1] r1 have tr1: "trace w1 = trace w @ CacheSet ?key h1
              # (case onProgress of None \<Rightarrow> [] | Some cb \<Rightarrow> [Progress cb 5])" by simp
      show ?thesis
      proof (cases "is_aborted abortSig w1")
        case True
        with r1 load False fresh gbt show ?thesis
          by (auto simp: loadBergamotModel_def load_try_def Let_def cache_delete_def)
      next
        case na1: False
        obtain r2 w2 where tl: "translate (engine env) (engine_result env) h1 w1 = (r2, w2)"
          by (cases "translate (engine env) (engine_result env) h1 w1")
        note t = translate_quiet [OF qe tl]
        show ?thesis
        proof (cases r2)
          case (Some e2)
          with r1 load False fresh gbt na1 tl show ?thesis
            by (auto simp: loadBergamotModel_def load_try_def Let_def cache_delete_def)
        next
          case None
          with r1 load False fresh gbt na1 tl
          have res: "r = Returned h1" "w' = finish_progress env onProgress w2"
            by (auto simp: loadBergamotModel_def load_try_def Let_def)
          from t(2) None obtain evs where evs:
            "trace w2 = trace w1 @ [TranslateCall h1] @ evs @ [TranslateSettled h1 True]"
            "\<forall>e \<in> set evs. \<exists>cb v. e = Progress cb v \<and> 0 \<le> v \<and> v \<le> 95"
            by auto
          have w': "bergamotTranslators w' = bergamotTranslators w2"
            "trace w' = trace w2 @ (case onProgress of None \<Rightarrow> []
                   | Some cb \<Rightarrow> [Progress cb 90, Progress cb 95, Progress cb 100])"
            using res(2) by (simp_all add: finish_progress_quiet [OF qs] split: option.splits)
          have "trace w' = trace w
                @ CacheSet ?key h1
                  # (case onProgress of None \<Rightarrow> [] | Some cb \<Rightarrow> [Progress cb 5])
                @ [TranslateCall h1] @ evs @ [TranslateSettled h1 True]
                @ (case onProgress of None \<Rightarrow> []
                   | Some cb \<Rightarrow> [Progress cb 90, Progress cb 95, Progress cb 100])"
            using w'(2) evs(1) tr1 by simp
          with evs(2) have "\<exists>evs. trace w' = trace w
                @ CacheSet ?key h1
                  # (case onProgress of None \<Rightarrow> [] | Some cb \<Rightarrow> [Progress cb 5])
                @ [TranslateCall h1] @ evs @ [TranslateSettled h1 True]
                @ (case onProgress of None \<Rightarrow> []
                   | Some cb \<Rightarrow> [Progress cb 90, Progress cb 95, Progress cb 100])
              \<and> (\<forall>e \<in> set evs. \<exists>cb v. e = Progress cb v \<and> 0 \<le> v \<and> v \<le> 95)"
            by blast
          moreover have "bergamotTranslators w' ?key = Some h1"
            using w'(1) t(1) cached by simp
          ultimately show ?thesis using res(1) by blast
        qed
      qed
    qed
  qed
  from goal show "r \<noteq> Pending" by simp
  from goal show "r = Threw e \<Longrightarrow> bergamotTranslators w' ?key = None" by simp
  from goal show "r = Returned h \<Longrightarrow>
          bergamotTranslators w' ?key = Some h
          \<and> (\<exists>evs. trace w' = trace w
                @ CacheSet ?key h
                  # (case onProgress of None \<Rightarrow> [] | Some cb \<Rightarrow> [Progress cb 5])
                @ [TranslateCall h] @ evs @ [TranslateSettled h True]
                @ (case onProgress of None \<Rightarrow> []
                   | Some cb \<Rightarrow> [Progress cb 90, Progress cb 95, Progress cb 100])
              \<and> (\<forall>e \<in> set evs. \<exists>cb v. e = Progress cb v \<and> 0 \<le> v \<and> v \<le> 95))" by simp
qed

section \<open>Properties of the translator cache\<close>

text \<open>
  Claim C1, as the code has it. \<open>getBergamotTranslator\<close> puts a new translator into
  the cache when it has constructed it: whenever it returns a handle, the cache holds that
  handle for the pair, and no trial translation has run yet. \<open>loadBergamotModel\<close> runs
  the trial translation afterwards and deletes the entry when the load throws. So for a
  pair that is neither cached nor being loaded, and a load that no other task interferes
  with: the load returns or throws; when it returns a handle, the cache holds the handle,
  and the trace has the insertion first and the success of the trial after it; when it
  throws, the cache has no entry for the pair.
\<close>

theorem handle_cached_at_creation:
  "(\<forall>h w1. getBergamotTranslator env source target abortSig onProgress w = (Returned h, w1) \<longrightarrow>
       bergamotTranslators w1 (modelKey source target) = Some h)
   \<and> (bergamotTranslators w (modelKey source target) = None
      \<and> activeLoaders w (modelKey source target) = None \<and> quiet env \<longrightarrow>
        (case loadBergamotModel env source target abortSig onProgress w of
           (Returned h, w') \<Rightarrow>
             bergamotTranslators w' (modelKey source target) = Some h
             \<and> (\<exists>evs2 evs3. trace w' = trace w @ [CacheSet (modelKey source target) h] @ evs2
                                @ [TranslateSettled h True] @ evs3)
         | (Threw e, w') \<Rightarrow> bergamotTranslators w' (modelKey source target) = None
         | (Pending, w') \<Rightarrow> False))"
proof (intro conjI allI impI)
  fix h w1
  assume "getBergamotTranslator env source target abortSig onProgress w = (Returned h, w1)"
  then show "bergamotTranslators w1 (modelKey source target) = Some h"
    by (rule getBergamotTranslator_returns_cached)
next
  let ?key = "modelKey source target"
  assume a: "bergamotTranslators w ?key = None \<and> activeLoaders w ?key = None \<and> quiet env"
  obtain r w' where load: "loadBergamotModel env source target abortSig onProgress w = (r, w')"
    by (cases "loadBergamotModel env source target abortSig onProgress w")
  from a have f1: "bergamotTranslators w ?key = None" and f2: "activeLoaders w ?key = None"
    and q: "quiet env" by simp_all
  note l = load_fresh_quiet [OF f1 f2 q load]
  show "case loadBergamotModel env source target abortSig onProgress w of
           (Returned h, w') \<Rightarrow>
             bergamotTranslators w' ?key = Some h
             \<and> (\<exists>evs2 evs3. trace w' = trace w @ [CacheSet ?key h] @ evs2
                                @ [TranslateSettled h True] @ evs3)
         | (Threw e, w') \<Rightarrow> bergamotTranslators w' ?key = None
         | (Pending, w') \<Rightarrow> False"
  proof (cases r)
    case Pending
    with l(1) show ?thesis by simp
  next
    case (Threw e)
    with l(2) [of e] load show ?thesis by simp
  next
    case (Returned h)
    from l(3) [OF Returned] obtain evs where c: "bergamotTranslators w' ?key = Some h"
      and t: "trace w' = trace w
                @ CacheSet ?key h
                  # (case onProgress of None \<Rightarrow> [] | Some cb \<Rightarrow> [Progress cb 5])
                @ [TranslateCall h] @ evs @ [TranslateSettled h True]
                @ (case onProgress of None \<Rightarrow> []
                   | Some cb \<Rightarrow> [Progress cb 90, Progress cb 95, Progress cb 100])"
      by blast
    have "\<exists>evs2 evs3. trace w' = trace w @ [CacheSet ?key h] @ evs2
                                @ [TranslateSettled h True] @ evs3"
      unfolding t
      by (rule exI [of _ "(case onProgress of None \<Rightarrow> [] | Some cb \<Rightarrow> [Progress cb 5])
                            @ [TranslateCall h] @ evs"],
          rule exI [of _ "case onProgress of None \<Rightarrow> []
                   | Some cb \<Rightarrow> [Progress cb 90, Progress cb 95, Progress cb 100]"]) simp
    with c Returned load show ?thesis by simp
  qed
qed

text \<open>
  Claim C1 as the code has it, for the first load of \<open>ja-en\<close>.
\<close>

theorem handle_cached_at_creation_witness:
  "fst (loadBergamotModel (simple_env direct_script None) ''ja'' ''en'' None None initial_world)
     = Returned 1
   \<and> bergamotTranslators
        (snd (loadBergamotModel (simple_env direct_script None) ''ja'' ''en'' None None initial_world))
        ''ja-en'' = Some 1
   \<and> fst (getBergamotTranslator (simple_env direct_script None) ''ja'' ''en'' None None initial_world)
     = Returned 1
   \<and> bergamotTranslators
        (snd (getBergamotTranslator (simple_env direct_script None) ''ja'' ''en'' None None initial_world))
        ''ja-en'' = Some 1"
proof -
  let ?env = "simple_env direct_script None"
  have k: "modelKey ''ja'' ''en'' = ''ja-en''" by (simp add: modelKey_def)
  have h: "bergamotTranslators initial_world (modelKey ''ja'' ''en'') = None
      \<and> activeLoaders initial_world (modelKey ''ja'' ''en'') = None \<and> quiet ?env"
    by (simp add: initial_world_def quiet_def simple_env_def direct_script_def)
  have r: "fst (loadBergamotModel ?env ''ja'' ''en'' None None initial_world) = Returned 1"
    by code_simp
  have g: "fst (getBergamotTranslator ?env ''ja'' ''en'' None None initial_world) = Returned 1"
    by code_simp
  note inst = handle_cached_at_creation [of ?env "''ja''" "''en''" None None initial_world]
  from inst [THEN conjunct2, rule_format, OF h] r
  have a: "bergamotTranslators (snd (loadBergamotModel ?env ''ja'' ''en'' None None initial_world))
             ''ja-en'' = Some 1"
    by (cases "loadBergamotModel ?env ''ja'' ''en'' None None initial_world") (simp add: k)
  from inst [THEN conjunct1, rule_format,
      of 1 "snd (getBergamotTranslator ?env ''ja'' ''en'' None None initial_world)"] g
  have b: "bergamotTranslators (snd (getBergamotTranslator ?env ''ja'' ''en'' None None initial_world))
             ''ja-en'' = Some 1"
    by (cases "getBergamotTranslator ?env ''ja'' ''en'' None None initial_world") (simp add: k)
  from r g a b show ?thesis by simp
qed

text \<open>
  Claim C1 as written fails. In the first load of \<open>ja-en\<close> the handle is set in the
  cache before \<open>translate\<close> is called, so the trace does not have the insertion after
  a successful trial; and when \<open>getBergamotTranslator\<close> has returned, before any
  trial, \<open>isBergamotModelLoaded\<close> already answers true.
\<close>

theorem cache_before_trial_counterexample:
  "trace (snd (loadBergamotModel (simple_env direct_script None) ''ja'' ''en'' None None initial_world))
     = [CacheSet ''ja-en'' 1, TranslateCall 1, TranslateSettled 1 True]
   \<and> \<not> cache_after_trial {}
         (trace (snd (loadBergamotModel (simple_env direct_script None) ''ja'' ''en'' None None
                        initial_world)))
   \<and> trace (snd (getBergamotTranslator (simple_env direct_script None) ''ja'' ''en'' None None
                   initial_world))
     = [CacheSet ''ja-en'' 1]
   \<and> isBergamotModelLoaded ''ja'' ''en''
        (snd (getBergamotTranslator (simple_env direct_script None) ''ja'' ''en'' None None
                initial_world))"
  by code_simp

section \<open>Properties of cancellation\<close>

text \<open>
  Claim C7, as the code has it. \<open>cancelBergamotModelLoad\<close> is idempotent. For a pair
  without an entry in \<open>activeLoaders\<close> it changes nothing, so a ready handle stays in
  the cache. For a pair with an entry it aborts the entry's controller, and afterwards
  neither \<open>activeLoaders\<close> nor the cache has an entry for the pair.
\<close>

theorem cancel_needs_loader:
  "cancelBergamotModelLoad source target (cancelBergamotModelLoad source target w)
     = cancelBergamotModelLoad source target w
   \<and> (activeLoaders w (modelKey source target) = None \<longrightarrow>
        cancelBergamotModelLoad source target w = w)
   \<and> (\<forall>ld. activeLoaders w (modelKey source target) = Some ld \<longrightarrow>
        activeLoaders (cancelBergamotModelLoad source target w) (modelKey source target) = None
        \<and> bergamotTranslators (cancelBergamotModelLoad source target w) (modelKey source target)
            = None
        \<and> abortController ld \<in> aborted (cancelBergamotModelLoad source target w))"
proof -
  let ?key = "modelKey source target"
  let ?c = "cancelBergamotModelLoad source target"
  have none: "?c v = v" if "activeLoaders v ?key = None" for v
    using that by (simp add: cancelBergamotModelLoad_def Let_def)
  have some: "activeLoaders (?c w) ?key = None \<and> bergamotTranslators (?c w) ?key = None
        \<and> abortController ld \<in> aborted (?c w)" if "activeLoaders w ?key = Some ld" for ld
    using that
    by (simp add: cancelBergamotModelLoad_def Let_def cache_delete_def abort_signal_def)
  have idem: "?c (?c w) = ?c w"
  proof (cases "activeLoaders w ?key")
    case None
    then show ?thesis by (simp add: none)
  next
    case (Some ld)
    with some [of ld] have "activeLoaders (?c w) ?key = None" by simp
    then show ?thesis by (rule none)
  qed
  from none [of w] some idem show ?thesis by blast
qed

text \<open>
  Claim C7 as the code has it: a cancel after the load of \<open>ja-en\<close> has returned, and a
  cancel while the load waits for the import.
\<close>

theorem cancel_needs_loader_witness:
  "cancelBergamotModelLoad ''ja'' ''en'' loaded_world = loaded_world
   \<and> activeLoaders (cancelBergamotModelLoad ''ja'' ''en'' importing_world) ''ja-en'' = None
   \<and> bergamotTranslators (cancelBergamotModelLoad ''ja'' ''en'' importing_world) ''ja-en'' = None
   \<and> LoaderSignal 0 \<in> aborted (cancelBergamotModelLoad ''ja'' ''en'' importing_world)"
proof -
  have k: "modelKey ''ja'' ''en'' = ''ja-en''" by (simp add: modelKey_def)
  have a: "activeLoaders loaded_world (modelKey ''ja'' ''en'') = None"
    unfolding k by code_simp
  have b: "activeLoaders importing_world (modelKey ''ja'' ''en'')
             = Some \<lparr>abortController = LoaderSignal 0, loader_onProgress = None\<rparr>"
    by (simp add: importing_world_def k)
  from cancel_needs_loader [of "''ja''" "''en''" loaded_world] a
  have 1: "cancelBergamotModelLoad ''ja'' ''en'' loaded_world = loaded_world" by simp
  from cancel_needs_loader [of "''ja''" "''en''" importing_world,
      THEN conjunct2, THEN conjunct2, rule_format, OF b]
  have 2: "activeLoaders (cancelBergamotModelLoad ''ja'' ''en'' importing_world) ''ja-en'' = None
   \<and> bergamotTranslators (cancelBergamotModelLoad ''ja'' ''en'' importing_world) ''ja-en'' = None
   \<and> LoaderSignal 0 \<in> aborted (cancelBergamotModelLoad ''ja'' ''en'' importing_world)"
    by (simp add: k)
  from 1 2 show ?thesis by simp
qed

text \<open>
  Claim C7 as written fails: after the load of \<open>ja-en\<close> has returned there is no loader
  and the handle is cached, and a cancel leaves the handle in the cache.
\<close>

theorem cancel_keeps_ready_handle_counterexample:
  "activeLoaders loaded_world ''ja-en'' = None
   \<and> bergamotTranslators loaded_world ''ja-en'' = Some 1
   \<and> bergamotTranslators (cancelBergamotModelLoad ''ja'' ''en'' loaded_world) ''ja-en'' = Some 1"
  by code_simp

text \<open>
  Claim C4, where the code departs from it. The \<open>finally\<close> block of
  \<open>getBergamotTranslator\<close> deletes the loader entry and removes the caller's abort
  listener before the trial translation starts the download. In the load of \<open>ja-en\<close>
  below, the pair is cancelled and the caller's signal is aborted after the model file
  has arrived: the load returns the handle all the same, the handle stays in the cache,
  and the controller that the backing checks is never aborted.
\<close>

theorem cancel_during_download_ignored:
  "fst (loadBergamotModel (simple_env cancelled_script None) ''ja'' ''en''
          (Some (CallerSignal 0)) None initial_world) = Returned 1
   \<and> bergamotTranslators
        (snd (loadBergamotModel (simple_env cancelled_script None) ''ja'' ''en''
                (Some (CallerSignal 0)) None initial_world)) ''ja-en'' = Some 1
   \<and> CallerSignal 0 \<in> aborted
        (snd (loadBergamotModel (simple_env cancelled_script None) ''ja'' ''en''
                (Some (CallerSignal 0)) None initial_world))
   \<and> LoaderSignal 0 \<notin> aborted
        (snd (loadBergamotModel (simple_env cancelled_script None) ''ja'' ''en''
                (Some (CallerSignal 0)) None initial_world))"
  by code_simp

text \<open>
  For comparison: a cancel while the load waits for the dynamic import does end the
  load with the error of \<open>checkAborted\<close>, and leaves no entry in either table.
\<close>

lemma cancel_during_import_aborts:
  "fst (loadBergamotModel cancelled_import_env ''ja'' ''en'' None None initial_world)
     = Threw (Error ''Operation aborted by user'')
   \<and> bergamotTranslators
        (snd (loadBergamotModel cancelled_import_env ''ja'' ''en'' None None initial_world))
        ''ja-en'' = None
   \<and> activeLoaders
        (snd (loadBergamotModel cancelled_import_env ''ja'' ''en'' None None initial_world))
        ''ja-en'' = None"
  by code_simp

section \<open>Properties of the progress reports\<close>

text \<open>
  Claim C8, where the code departs from it. \<open>fetch\<close> computes the weight of a file
  from its role (0.70 for the model file of a direct pair, 0.10 for the lexical
  shortlist) and passes only the equal slot of each file to \<open>updateProgress\<close>: after
  the registry has been read, the download of the model file and the download of the
  lexical shortlist report the same four progress values.
\<close>

theorem file_weight_unused:
  "fileWeight model_url False = 7 / 10
   \<and> fileWeight model_url True = 35 / 100
   \<and> fileWeight vocab_url False = 2 / 10
   \<and> fileWeight lex_url False = 1 / 10
   \<and> trace (snd (fetch model_url gz_file 1 registry_read_world))
       = trace (snd (fetch lex_url gz_file 1 registry_read_world))
   \<and> length (trace (snd (fetch model_url gz_file 1 registry_read_world)))
       = length (trace registry_read_world) + 4"
  by code_simp







end
